theory Spec2Isabelle
  imports Complex_Main "HOL-Library.Char_ord" "HOL-Library.List_Lexorder"
begin

section \<open>Python values and exceptions\<close>

text \<open>
  The dashboards are Python programs over pandas tables, numpy arrays and Qt widgets.
  An exception raised by the interpreter or by a library is a value of \<open>py_error\<close>;
  a function that may raise returns \<open>py_error + 'a\<close> with \<open>Inl\<close> for the exception.
  Numbers read from a CSV file are finite; they are modelled as real numbers, so
  the rounding of IEEE doubles is outside the model. What IEEE arithmetic does at a
  division by zero is inside it (type \<open>npfloat\<close> below).
\<close>

datatype py_error = ValueError | IndexError | KeyError | TypeError | AttributeError

definition py_bind :: "py_error + 'a \<Rightarrow> ('a \<Rightarrow> py_error + 'b) \<Rightarrow> py_error + 'b" where
  "py_bind m f = (case m of Inl e \<Rightarrow> Inl e | Inr v \<Rightarrow> f v)"

text \<open>Indexing a numpy array or a list: a negative index counts from the end.\<close>

definition py_get :: "'a list \<Rightarrow> int \<Rightarrow> py_error + 'a" where
  "py_get xs i =
     (if 0 \<le> i \<and> i < int (length xs) then Inr (xs ! nat i)
      else if i < 0 \<and> - int (length xs) \<le> i then Inr (xs ! nat (int (length xs) + i))
      else Inl IndexError)"

section \<open>numpy: floats, gradient, argmax\<close>

text \<open>
  A float64 is a finite real (\<open>Fin 0\<close> is \<open>+0.0\<close>), the negative zero, an infinity
  or NaN. The operations follow IEEE 754 on the special values and are exact on the
  finite ones.
\<close>

datatype npfloat = Fin real | NZero | PInf | NInf | NaN

fun is_neg :: "npfloat \<Rightarrow> bool" where
  "is_neg (Fin x) = (x < 0)"
| "is_neg NZero = True"
| "is_neg PInf = False"
| "is_neg NInf = True"
| "is_neg NaN = False"

fun is_zero :: "npfloat \<Rightarrow> bool" where
  "is_zero (Fin x) = (x = 0)"
| "is_zero NZero = True"
| "is_zero PInf = False"
| "is_zero NInf = False"
| "is_zero NaN = False"

fun is_inf :: "npfloat \<Rightarrow> bool" where
  "is_inf PInf = True"
| "is_inf NInf = True"
| "is_inf (Fin x) = False"
| "is_inf NZero = False"
| "is_inf NaN = False"

fun mag :: "npfloat \<Rightarrow> real" where
  "mag (Fin x) = x"
| "mag NZero = 0"
| "mag PInf = 0"
| "mag NInf = 0"
| "mag NaN = 0"

definition zero_sgn :: "bool \<Rightarrow> npfloat" where
  "zero_sgn neg = (if neg then NZero else Fin 0)"

definition inf_sgn :: "bool \<Rightarrow> npfloat" where
  "inf_sgn neg = (if neg then NInf else PInf)"

fun fneg :: "npfloat \<Rightarrow> npfloat" where
  "fneg (Fin x) = (if x = 0 then NZero else Fin (- x))"
| "fneg NZero = Fin 0"
| "fneg PInf = NInf"
| "fneg NInf = PInf"
| "fneg NaN = NaN"

definition fadd :: "npfloat \<Rightarrow> npfloat \<Rightarrow> npfloat" where
  "fadd a b =
     (if a = NaN \<or> b = NaN then NaN
      else if is_inf a \<and> is_inf b then (if a = b then a else NaN)
      else if is_inf a then a
      else if is_inf b then b
      else if is_zero a \<and> is_zero b then zero_sgn (is_neg a \<and> is_neg b)
      else Fin (mag a + mag b))"

definition fsub :: "npfloat \<Rightarrow> npfloat \<Rightarrow> npfloat" where
  "fsub a b = fadd a (fneg b)"

definition fmul :: "npfloat \<Rightarrow> npfloat \<Rightarrow> npfloat" where
  "fmul a b =
     (if a = NaN \<or> b = NaN then NaN
      else if (is_inf a \<and> is_zero b) \<or> (is_zero a \<and> is_inf b) then NaN
      else if is_inf a \<or> is_inf b then inf_sgn (is_neg a \<noteq> is_neg b)
      else if is_zero a \<or> is_zero b then zero_sgn (is_neg a \<noteq> is_neg b)
      else Fin (mag a * mag b))"

definition fdiv :: "npfloat \<Rightarrow> npfloat \<Rightarrow> npfloat" where
  "fdiv a b =
     (if a = NaN \<or> b = NaN then NaN
      else if (is_inf a \<and> is_inf b) \<or> (is_zero a \<and> is_zero b) then NaN
      else if is_inf a \<or> is_zero b then inf_sgn (is_neg a \<noteq> is_neg b)
      else if is_inf b \<or> is_zero a then zero_sgn (is_neg a \<noteq> is_neg b)
      else Fin (mag a / mag b))"

text \<open>Comparison of a float with a finite constant: false on NaN.\<close>

fun fgt :: "npfloat \<Rightarrow> real \<Rightarrow> bool" where
  "fgt (Fin x) c = (x > c)"
| "fgt NZero c = (0 > c)"
| "fgt PInf c = True"
| "fgt NInf c = False"
| "fgt NaN c = False"

fun flt :: "npfloat \<Rightarrow> real \<Rightarrow> bool" where
  "flt (Fin x) c = (x < c)"
| "flt NZero c = (0 < c)"
| "flt PInf c = False"
| "flt NInf c = True"
| "flt NaN c = False"

text \<open>\<open>np.diff\<close> of an array of finite values: the differences of neighbours.\<close>

fun np_diff :: "real list \<Rightarrow> real list" where
  "np_diff (a # b # xs) = (b - a) # np_diff (b # xs)"
| "np_diff xs = []"

text \<open>
  \<open>np.gradient(f, x)\<close> with a coordinate array \<open>x\<close> and the default \<open>edge_order=1\<close>.
  numpy raises ValueError when the lengths differ and IndexError (from \<open>diffx[0]\<close>)
  when there are fewer than two points. When all spacings are equal it takes the
  scalar path \<open>(f[i+1] - f[i-1]) / (2 * dx)\<close>; otherwise the interior uses the
  weights \<open>a, b, c\<close> for uneven spacing. The two ends are one-sided differences.
\<close>

definition interior_uniform :: "real list \<Rightarrow> real \<Rightarrow> nat \<Rightarrow> npfloat" where
  "interior_uniform f dx i =
     fdiv (fsub (Fin (f ! (i + 1))) (Fin (f ! (i - 1)))) (fmul (Fin 2) (Fin dx))"

definition interior_uneven :: "real list \<Rightarrow> real list \<Rightarrow> nat \<Rightarrow> npfloat" where
  "interior_uneven f diffx i =
     (let dx1 = Fin (diffx ! (i - 1)); dx2 = Fin (diffx ! i);
          a = fdiv (fneg dx2) (fmul dx1 (fadd dx1 dx2));
          b = fdiv (fsub dx2 dx1) (fmul dx1 dx2);
          c = fdiv dx1 (fmul dx2 (fadd dx1 dx2))
      in fadd (fadd (fmul a (Fin (f ! (i - 1)))) (fmul b (Fin (f ! i))))
              (fmul c (Fin (f ! (i + 1)))))"

definition np_gradient :: "real list \<Rightarrow> real list \<Rightarrow> py_error + npfloat list" where
  "np_gradient f x =
     (if length x \<noteq> length f then Inl ValueError
      else if length x < 2 then Inl IndexError
      else
        (let n = length f; diffx = np_diff x;
             uniform = list_all (\<lambda>d. d = hd diffx) diffx
         in Inr (map (\<lambda>i.
              if i = 0 then
                fdiv (fsub (Fin (f ! 1)) (Fin (f ! 0))) (Fin (hd diffx))
              else if i = n - 1 then
                fdiv (fsub (Fin (f ! (n - 1))) (Fin (f ! (n - 2)))) (Fin (last diffx))
              else if uniform then interior_uniform f (hd diffx) i
              else interior_uneven f diffx i) [0..<n])))"

text \<open>
  \<open>np.argmax\<close> scans from the left and keeps the first position of the largest
  value seen; on an empty array it raises ValueError. On a boolean mask it returns
  the position of the first True, and 0 when there is none.
\<close>

fun argmax_from :: "real \<Rightarrow> nat \<Rightarrow> nat \<Rightarrow> real list \<Rightarrow> nat" where
  "argmax_from mv mi i [] = mi"
| "argmax_from mv mi i (x # xs) =
     (if x > mv then argmax_from x i (Suc i) xs else argmax_from mv mi (Suc i) xs)"

definition np_argmax :: "real list \<Rightarrow> py_error + nat" where
  "np_argmax xs = (case xs of [] \<Rightarrow> Inl ValueError | x # ys \<Rightarrow> Inr (argmax_from x 0 1 ys))"

fun first_true :: "bool list \<Rightarrow> nat option" where
  "first_true [] = None"
| "first_true (b # bs) = (if b then Some 0 else map_option Suc (first_true bs))"

definition np_argmax_mask :: "bool list \<Rightarrow> py_error + nat" where
  "np_argmax_mask bs =
     (if bs = [] then Inl ValueError
      else Inr (case first_true bs of None \<Rightarrow> 0 | Some i \<Rightarrow> i))"

definition np_min :: "real list \<Rightarrow> py_error + real" where
  "np_min xs = (case xs of [] \<Rightarrow> Inl ValueError | x # ys \<Rightarrow> Inr (fold min ys x))"

section \<open>Flight phase detection (V9, \<open>RocketDashboard.detect_phases\<close>)\<close>

text \<open>
  The local variables of \<open>detect_phases\<close>: the row indices it computes before it
  looks the times up. \<open>coast\<close> is \<open>int((boost + apogee)/2)\<close>, the floor of the mean of
  two non-negative indices; \<open>landed\<close> is \<open>len(altitude) - argmax(...)\<close> and is read
  at \<open>landed - 1\<close>.
\<close>

record phase_idx =
  boost :: nat
  coast :: nat
  apogee :: nat
  descent :: nat
  landed :: int

definition phase_indices :: "real list \<Rightarrow> real list \<Rightarrow> py_error + phase_idx" where
  "phase_indices time altitude =
     py_bind (np_gradient altitude time) (\<lambda>vel.
     py_bind (np_argmax_mask (map (\<lambda>v. fgt v 5) vel)) (\<lambda>b.
     py_bind (np_argmax altitude) (\<lambda>a.
     py_bind (np_argmax_mask (map (\<lambda>v. flt v (- 2)) (drop a vel))) (\<lambda>d.
     py_bind (np_min altitude) (\<lambda>m.
     py_bind (np_argmax_mask (map (\<lambda>h. h > m + 2) (rev altitude))) (\<lambda>l.
       Inr \<lparr>boost = b, coast = (b + a) div 2, apogee = a, descent = a + d,
            landed = int (length altitude) - int l\<rparr>))))))"

text \<open>The dictionary returned: phase name to the time at that row, in insertion order.\<close>

definition detect_phases :: "real list \<Rightarrow> real list \<Rightarrow> py_error + (string \<times> real) list" where
  "detect_phases time altitude =
     py_bind (phase_indices time altitude) (\<lambda>ix.
     py_bind (py_get time (int (boost ix))) (\<lambda>tb.
     py_bind (py_get time (int (coast ix))) (\<lambda>tc.
     py_bind (py_get time (int (apogee ix))) (\<lambda>ta.
     py_bind (py_get time (int (descent ix))) (\<lambda>td.
     py_bind (py_get time (landed ix - 1)) (\<lambda>tl.
       Inr [(''Boost'', tb), (''Coast'', tc), (''Apogee'', ta),
            (''Descent'', td), (''Landed'', tl)]))))))"

section \<open>Column names\<close>

text \<open>
  \<open>str.lower()\<close> on the ASCII letters (other characters are left as they are) and
  the substring test \<open>k in name\<close>.
\<close>

definition lower_char :: "char \<Rightarrow> char" where
  "lower_char c =
     (case map_of (zip ''ABCDEFGHIJKLMNOPQRSTUVWXYZ'' ''abcdefghijklmnopqrstuvwxyz'') c of
        None \<Rightarrow> c | Some d \<Rightarrow> d)"

definition lower :: "string \<Rightarrow> string" where
  "lower s = map lower_char s"

fun str_in :: "string \<Rightarrow> string \<Rightarrow> bool" where
  "str_in k [] = (k = [])"
| "str_in k (c # cs) = (take (length k) (c # cs) = k \<or> str_in k cs)"

subsection \<open>V9, \<open>RocketDashboard.detect\<close>\<close>

text \<open>
  The first column, in table order, whose lower-cased name contains one of the
  keywords; \<open>None\<close> when no column does.
\<close>

fun detect :: "string list \<Rightarrow> string list \<Rightarrow> string option" where
  "detect keywords [] = None"
| "detect keywords (c # cs) =
     (if list_ex (\<lambda>k. str_in k (lower c)) keywords then Some c else detect keywords cs)"

subsection \<open>V8, the time-column loop of \<open>load_csv\<close>\<close>

text \<open>
  \<open>for c in self.data.columns: if "time" in c.lower(): self.time_col = c\<close>. The
  loop does not stop at a match, and \<open>time_col\<close> keeps its earlier value when no
  column matches.
\<close>

fun V8_time_loop :: "string option \<Rightarrow> string list \<Rightarrow> string option" where
  "V8_time_loop time_col [] = time_col"
| "V8_time_loop time_col (c # cs) =
     V8_time_loop (if str_in ''time'' (lower c) then Some c else time_col) cs"

subsection \<open>The column loop of \<open>load_csv\<close> in the unnamed dashboard (part 000)\<close>

text \<open>
  The attributes the loop writes. They are set to \<open>None\<close> by the constructor and
  are not reset by \<open>load_csv\<close>; \<open>variable_list\<close> is cleared before the loop.
\<close>

record channels =
  time_col :: "string option"
  alt_col :: "string option"
  vel_col :: "string option"
  yaw_col :: "string option"
  yaw_sp_col :: "string option"
  servo_col :: "string option"
  acc_x :: "string option"
  acc_y :: "string option"
  acc_z :: "string option"
  variable_list :: "string list"

definition init_channels :: channels where
  "init_channels =
     \<lparr>time_col = None, alt_col = None, vel_col = None, yaw_col = None, yaw_sp_col = None,
      servo_col = None, acc_x = None, acc_y = None, acc_z = None, variable_list = []\<rparr>"

text \<open>The if/elif chain on one column name: the first branch whose test holds is taken.\<close>

definition assign_role :: "channels \<Rightarrow> string \<Rightarrow> channels" where
  "assign_role st c =
     (let low = lower c in
      if str_in ''time'' low then st\<lparr>time_col := Some c\<rparr>
      else if str_in ''alt'' low then st\<lparr>alt_col := Some c\<rparr>
      else if str_in ''vel'' low then st\<lparr>vel_col := Some c\<rparr>
      else if str_in ''yaw'' low \<and> (\<not> str_in ''set'' low \<and> \<not> str_in ''sp'' low)
        then st\<lparr>yaw_col := Some c\<rparr>
      else if str_in ''set'' low \<or> str_in ''sp'' low then st\<lparr>yaw_sp_col := Some c\<rparr>
      else if str_in ''servo'' low \<or> str_in ''pos'' low then st\<lparr>servo_col := Some c\<rparr>
      else st)"

definition assign_accel :: "channels \<Rightarrow> string \<Rightarrow> channels" where
  "assign_accel st c =
     (let low = lower c in
      if str_in ''accel'' low \<or> str_in ''acc'' low then
        (if str_in ''x'' low then st\<lparr>acc_x := Some c\<rparr>
         else if str_in ''y'' low then st\<lparr>acc_y := Some c\<rparr>
         else if str_in ''z'' low then st\<lparr>acc_z := Some c\<rparr>
         else st)
      else st)"

text \<open>One pass of the loop body; \<open>numeric\<close> is \<open>is_numeric_dtype\<close> of the column.\<close>

definition load_csv_column :: "channels \<Rightarrow> string \<times> bool \<Rightarrow> channels" where
  "load_csv_column st col =
     (let c = fst col; numeric = snd col;
          st1 = assign_role st c;
          st2 = assign_accel st1 c
      in if numeric \<and> Some c \<noteq> time_col st2
         then st2\<lparr>variable_list := variable_list st2 @ [c]\<rparr> else st2)"

definition load_csv_columns :: "channels \<Rightarrow> (string \<times> bool) list \<Rightarrow> channels" where
  "load_csv_columns st cols = foldl load_csv_column (st\<lparr>variable_list := []\<rparr>) cols"

subsection \<open>V3, \<open>RocketDashboard.detect_columns\<close>\<close>

text \<open>
  The category a column is appended to; \<open>None\<close> for a column that matches no rule
  and is not numeric. The Time branch also stores the column in \<open>time_column\<close>.
\<close>

definition V3_category :: "string \<Rightarrow> bool \<Rightarrow> string option" where
  "V3_category col numeric =
     (let name = lower col in
      if str_in ''time'' name \<or> name = ''t'' then Some ''Time''
      else if str_in ''alt'' name \<or> str_in ''height'' name then Some ''Altitude''
      else if str_in ''vel'' name \<or> str_in ''speed'' name then Some ''Velocity''
      else if str_in ''yaw'' name \<or> str_in ''pitch'' name \<or> str_in ''roll'' name
        then Some ''Orientation''
      else if str_in ''servo'' name \<or> str_in ''fin'' name then Some ''Control''
      else if str_in ''setpoint'' name \<or> str_in ''target'' name then Some ''Setpoint''
      else if str_in ''apogee'' name then Some ''Apogee''
      else if str_in ''status'' name \<or> str_in ''mpu'' name \<or> str_in ''bmp'' name
        then Some ''Status''
      else if numeric then Some ''Other'' else None)"

record V3_detected =
  categories :: "(string \<times> string list) list"
  time_column :: "string option"

definition V3_append :: "string \<Rightarrow> string \<Rightarrow> (string \<times> string list) list
    \<Rightarrow> (string \<times> string list) list" where
  "V3_append cat col cats = map (\<lambda>(k, v). if k = cat then (k, v @ [col]) else (k, v)) cats"

definition V3_detect_column :: "V3_detected \<Rightarrow> string \<times> bool \<Rightarrow> V3_detected" where
  "V3_detect_column st col =
     (case V3_category (fst col) (snd col) of
        None \<Rightarrow> st
      | Some cat \<Rightarrow>
          \<lparr>categories = V3_append cat (fst col) (categories st),
           time_column = (if cat = ''Time'' then Some (fst col) else time_column st)\<rparr>)"

definition V3_detect_columns :: "string option \<Rightarrow> (string \<times> bool) list \<Rightarrow> V3_detected" where
  "V3_detect_columns tc cols =
     foldl V3_detect_column
       \<lparr>categories = map (\<lambda>k. (k, []))
          [''Time'', ''Altitude'', ''Velocity'', ''Orientation'', ''Control'', ''Setpoint'',
           ''Apogee'', ''Status'', ''Other''],
        time_column = tc\<rparr> cols"


section \<open>Playback: the Qt slider and timer\<close>

text \<open>
  The scrub cursor is the value of a \<open>QSlider\<close> and playback is a \<open>QTimer\<close> whose
  timeout calls \<open>animate\<close>. \<open>QSlider.setValue\<close> clamps its argument to the range of
  the slider; \<open>QTimer.stop\<close> makes the timer inactive, and an inactive timer delivers
  no timeout. A fresh slider has the range 0 to 99 and the value 0.
\<close>

record playback =
  slider_value :: int
  slider_minimum :: int
  slider_maximum :: int
  timer_active :: bool

definition setValue :: "int \<Rightarrow> 'a playback_scheme \<Rightarrow> 'a playback_scheme" where
  "setValue v s = s\<lparr>slider_value := max (slider_minimum s) (min (slider_maximum s) v)\<rparr>"

text \<open>
  \<open>QSlider.setMaximum(m)\<close>: the minimum is lowered to \<open>m\<close> when it is above it, and the
  value is clamped to the new range.
\<close>

definition setMaximum :: "int \<Rightarrow> 'a playback_scheme \<Rightarrow> 'a playback_scheme" where
  "setMaximum m s =
     setValue (slider_value s) (s\<lparr>slider_minimum := min (slider_minimum s) m, slider_maximum := m\<rparr>)"

definition timer_start :: "'a playback_scheme \<Rightarrow> 'a playback_scheme" where
  "timer_start s = s\<lparr>timer_active := True\<rparr>"

definition timer_stop :: "'a playback_scheme \<Rightarrow> 'a playback_scheme" where
  "timer_stop s = s\<lparr>timer_active := False\<rparr>"

subsection \<open>V9, \<open>RocketDashboard.animate\<close>\<close>

definition V9_animate :: "'a playback_scheme \<Rightarrow> 'a playback_scheme" where
  "V9_animate s =
     (let v = slider_value s + 1 in
      if v \<ge> slider_maximum s then timer_stop s else setValue v s)"

text \<open>One timeout of the timer: \<open>animate\<close> runs only while the timer is active.\<close>

definition V9_tick :: "'a playback_scheme \<Rightarrow> 'a playback_scheme" where
  "V9_tick s = (if timer_active s then V9_animate s else s)"

subsection \<open>V8b, \<open>RocketDashboard.animate\<close> and \<open>toggle_playback\<close>\<close>

definition V8b_animate :: "'a playback_scheme \<Rightarrow> 'a playback_scheme" where
  "V8b_animate s =
     (let v = slider_value s in
      if v < slider_maximum s then setValue (v + 1) s else timer_stop s)"

definition V8b_tick :: "'a playback_scheme \<Rightarrow> 'a playback_scheme" where
  "V8b_tick s = (if timer_active s then V8b_animate s else s)"

definition V8b_toggle_playback :: "'a playback_scheme \<Rightarrow> 'a playback_scheme" where
  "V8b_toggle_playback s = (if timer_active s then timer_stop s else timer_start s)"

section \<open>pandas tables\<close>

text \<open>
  A table read by \<open>pd.read_csv\<close>: named columns in file order, all of the same length.
  A cell holds a number or text; a column has a numeric dtype when it has rows and
  every cell is a number. Missing values are outside the model.
\<close>

datatype cell = Num real | Str string

type_synonym table = "(string \<times> cell list) list"

definition columns :: "table \<Rightarrow> string list" where
  "columns df = map fst df"

text \<open>\<open>df[name].values\<close>: KeyError when \<open>name\<close> is \<open>None\<close> or is not a column.\<close>

definition df_values :: "table \<Rightarrow> string option \<Rightarrow> py_error + cell list" where
  "df_values df name =
     (case name of
        None \<Rightarrow> Inl KeyError
      | Some c \<Rightarrow> (case map_of df c of None \<Rightarrow> Inl KeyError | Some col \<Rightarrow> Inr col))"

fun is_num :: "cell \<Rightarrow> bool" where
  "is_num (Num x) = True"
| "is_num (Str s) = False"

fun as_float :: "cell \<Rightarrow> py_error + real" where
  "as_float (Num x) = Inr x"
| "as_float (Str s) = Inl TypeError"

text \<open>Arithmetic on an array of cells: numpy raises TypeError at a text cell.\<close>

fun as_floats :: "cell list \<Rightarrow> py_error + real list" where
  "as_floats [] = Inr []"
| "as_floats (c # cs) =
     py_bind (as_float c) (\<lambda>x. py_bind (as_floats cs) (\<lambda>xs. Inr (x # xs)))"

definition numeric_dtype :: "cell list \<Rightarrow> bool" where
  "numeric_dtype col = (col \<noteq> [] \<and> list_all is_num col)"

fun num_values :: "cell list \<Rightarrow> real list" where
  "num_values [] = []"
| "num_values (Num x # cs) = x # num_values cs"
| "num_values (Str s # cs) = num_values cs"

text \<open>\<open>df.select_dtypes(include='number')\<close>, each column with its \<open>.values\<close>.\<close>

definition select_number :: "table \<Rightarrow> (string \<times> real list) list" where
  "select_number df =
     map (\<lambda>(c, col). (c, num_values col)) (filter (\<lambda>(c, col). numeric_dtype col) df)"

section \<open>The views: \<open>GraphCard\<close> and \<open>GPSMap\<close> (V8, V9, V12b)\<close>

text \<open>
  What a card shows: the plotted data (\<open>None\<close> until \<open>plot\<close> is called), the position
  of the cursor line, the dot, and the phase markers drawn on it. A handler that can
  raise part-way returns the exception, if any, together with the state it left.
\<close>

record graph_card =
  card_title :: string
  card_data :: "real list option"
  card_cursor :: "cell option"
  card_dot :: "(cell \<times> real) option"
  card_phases :: "(string \<times> real) list"

definition GraphCard :: "string \<Rightarrow> graph_card" where
  "GraphCard title =
     \<lparr>card_title = title, card_data = None, card_cursor = None, card_dot = None,
      card_phases = []\<rparr>"

text \<open>
  \<open>GraphCard.plot(time, data)\<close>: the axes are cleared, which removes the markers
  drawn before; \<open>ax.plot\<close> raises ValueError when the two arrays differ in length,
  and \<open>time[0]\<close> raises IndexError on an empty table.
\<close>

definition plot :: "graph_card \<Rightarrow> real list \<Rightarrow> real list \<Rightarrow> py_error + graph_card" where
  "plot crd time data =
     (if length time \<noteq> length data then Inl ValueError
      else
        py_bind (py_get time 0) (\<lambda>t0.
        py_bind (py_get data 0) (\<lambda>d0.
          Inr (crd\<lparr>card_data := Some data, card_cursor := Some (Num t0),
                    card_dot := Some (Num t0, d0), card_phases := []\<rparr>))))"

definition draw_phases :: "graph_card \<Rightarrow> (string \<times> real) list \<Rightarrow> graph_card" where
  "draw_phases crd phases = crd\<lparr>card_phases := card_phases crd @ phases\<rparr>"

definition update_cursor :: "graph_card \<Rightarrow> cell \<Rightarrow> int \<Rightarrow> py_error option \<times> graph_card" where
  "update_cursor crd t index =
     (case card_data crd of
        None \<Rightarrow> (None, crd)
      | Some d \<Rightarrow>
          (let crd1 = crd\<lparr>card_cursor := Some t\<rparr> in
           case py_get d index of
             Inl e \<Rightarrow> (Some e, crd1)
           | Inr y \<Rightarrow> (None, crd1\<lparr>card_dot := Some (t, y)\<rparr>)))"

text \<open>\<open>for c in self.cards: c.update_cursor(t, index)\<close>: an exception leaves the loop.\<close>

fun update_cards :: "graph_card list \<Rightarrow> cell \<Rightarrow> int \<Rightarrow> py_error option \<times> graph_card list" where
  "update_cards [] t index = (None, [])"
| "update_cards (c # cs) t index =
     (case update_cursor c t index of
        (Some e, c') \<Rightarrow> (Some e, c' # cs)
      | (None, c') \<Rightarrow>
          (case update_cards cs t index of (r, cs') \<Rightarrow> (r, c' # cs')))"

text \<open>
  The GPS map: the two arrays given to \<open>plot\<close> and the marker, which exists only once
  \<open>plot\<close> has drawn it. \<open>plot\<close> stores the arrays first; \<open>ax.plot(lon, lat)\<close> raises
  ValueError when they differ in length and \<open>lon[0]\<close> raises IndexError when they are
  empty. \<open>update_cursor\<close> reads \<open>self.cursor\<close> before it indexes the arrays.
\<close>

record gps_map =
  gps_lat :: "cell list"
  gps_lon :: "cell list"
  gps_cursor :: "(cell \<times> cell) option"

definition GPSMap :: gps_map where
  "GPSMap = \<lparr>gps_lat = [], gps_lon = [], gps_cursor = None\<rparr>"

definition gps_plot :: "gps_map \<Rightarrow> cell list \<Rightarrow> cell list \<Rightarrow> py_error option \<times> gps_map" where
  "gps_plot g lat lon =
     (let g1 = g\<lparr>gps_lat := lat, gps_lon := lon\<rparr> in
      if length lon \<noteq> length lat then (Some ValueError, g1)
      else
        (case py_bind (py_get lon 0) (\<lambda>x. py_bind (py_get lat 0) (\<lambda>y. Inr (x, y))) of
           Inl e \<Rightarrow> (Some e, g1)
         | Inr xy \<Rightarrow> (None, g1\<lparr>gps_cursor := Some xy\<rparr>)))"

definition gps_update_cursor :: "gps_map \<Rightarrow> int \<Rightarrow> py_error option \<times> gps_map" where
  "gps_update_cursor g index =
     (if gps_cursor g = None then (Some AttributeError, g)
      else
        (case py_bind (py_get (gps_lon g) index) (\<lambda>x.
              py_bind (py_get (gps_lat g) index) (\<lambda>y. Inr (x, y))) of
           Inl e \<Rightarrow> (Some e, g)
         | Inr xy \<Rightarrow> (None, g\<lparr>gps_cursor := Some xy\<rparr>)))"

section \<open>V9: \<open>load_csv\<close> and \<open>update_all\<close>\<close>

text \<open>
  The dashboard of V9: the slider and the timer, the table, the cards, the GPS map
  (an attribute that exists only once a table with latitude and longitude was
  loaded) and \<open>self.time\<close> (an attribute that exists only after a load). The labels
  and layouts that \<open>load_csv\<close> adds to the window are not part of the state.
\<close>

record V9_dashboard = playback +
  V9_data :: "table option"
  V9_cards :: "graph_card list"
  V9_gps :: "gps_map option"
  V9_time :: "real list option"

text \<open>The dashboard as \<open>__init__\<close> leaves it; a fresh \<open>QSlider\<close> runs from 0 to 99.\<close>

definition V9_init :: V9_dashboard where
  "V9_init =
     \<lparr>slider_value = 0, slider_minimum = 0, slider_maximum = 99, timer_active = False,
      V9_data = None, V9_cards = [], V9_gps = None, V9_time = None\<rparr>"

definition V9_update_all :: "V9_dashboard \<Rightarrow> int \<Rightarrow> py_error option \<times> V9_dashboard" where
  "V9_update_all s index =
     (case V9_time s of
        None \<Rightarrow> (Some AttributeError, s)
      | Some time \<Rightarrow>
          (case py_get time index of
             Inl e \<Rightarrow> (Some e, s)
           | Inr t \<Rightarrow>
               (case update_cards (V9_cards s) (Num t) index of
                  (Some e, cs) \<Rightarrow> (Some e, s\<lparr>V9_cards := cs\<rparr>)
                | (None, cs) \<Rightarrow>
                    (case V9_gps s of
                       None \<Rightarrow> (None, s\<lparr>V9_cards := cs\<rparr>)
                     | Some g \<Rightarrow>
                         (case gps_update_cursor g index of
                            (r, g') \<Rightarrow> (r, s\<lparr>V9_cards := cs, V9_gps := Some g'\<rparr>))))))"

text \<open>
  The first lines of \<open>load_csv\<close> after the table is stored: the two columns are
  looked up and \<open>detect_phases\<close> is called on their \<open>.values\<close>. \<open>self.data[None]\<close>
  raises KeyError; inside \<open>np.gradient\<close> numpy raises IndexError for fewer than two
  rows and TypeError for a column of text.
\<close>

definition V9_read_series :: "table \<Rightarrow> py_error + real list \<times> (string \<times> real) list" where
  "V9_read_series df =
     py_bind (df_values df (detect [''time''] (columns df))) (\<lambda>time_cells.
     py_bind (df_values df (detect [''alt''] (columns df))) (\<lambda>altitude_cells.
     py_bind (if length time_cells < 2 then Inl IndexError else as_floats time_cells) (\<lambda>time.
     py_bind (as_floats altitude_cells) (\<lambda>altitude.
     py_bind (detect_phases time altitude) (\<lambda>phases. Inr (time, phases))))))"

text \<open>
  The loop that builds one card for each numeric column other than the time column:
  \<open>GraphCard(col)\<close>, \<open>plot\<close>, \<open>draw_phases\<close>, \<open>self.cards.append\<close>. When \<open>plot\<close> raises,
  the cards appended so far are the list.
\<close>

fun make_cards :: "string option \<Rightarrow> real list \<Rightarrow> (string \<times> real) list
    \<Rightarrow> (string \<times> real list) list \<Rightarrow> py_error option \<times> graph_card list" where
  "make_cards tcol time phases [] = (None, [])"
| "make_cards tcol time phases ((col, vals) # rest) =
     (if Some col = tcol then make_cards tcol time phases rest
      else
        (case plot (GraphCard col) time vals of
           Inl e \<Rightarrow> (Some e, [])
         | Inr crd \<Rightarrow>
             (case make_cards tcol time phases rest of
                (r, cards) \<Rightarrow> (r, draw_phases crd phases # cards))))"

text \<open>The GPS part of \<open>load_csv\<close>: \<open>self.gps\<close> is replaced only when both columns exist.\<close>

definition V9_load_gps :: "V9_dashboard \<Rightarrow> table \<Rightarrow> py_error option \<times> V9_dashboard" where
  "V9_load_gps s df =
     (case (detect [''lat''] (columns df), detect [''lon''] (columns df)) of
        (Some lat, Some lon) \<Rightarrow>
          (let s1 = s\<lparr>V9_gps := Some GPSMap\<rparr> in
           case py_bind (df_values df (Some lat)) (\<lambda>la.
                py_bind (df_values df (Some lon)) (\<lambda>lo. Inr (la, lo))) of
             Inl e \<Rightarrow> (Some e, s1)
           | Inr (la, lo) \<Rightarrow>
               (case gps_plot GPSMap la lo of (r, g) \<Rightarrow> (r, s\<lparr>V9_gps := Some g\<rparr>)))
      | _ \<Rightarrow> (None, s))"

text \<open>
  \<open>load_csv\<close> once the file dialog has returned a path and \<open>read_csv\<close> the table \<open>df\<close>.
  The result is the exception that ends the call, if any, and the state the call
  leaves: \<open>self.data\<close> is replaced first, the old cards are dropped only after
  \<open>detect_phases\<close> has returned. The last statement, \<open>slider.setMaximum(len(time)-1)\<close>,
  emits \<open>valueChanged\<close> when it has to clamp the value, and the signal calls
  \<open>update_all\<close>.
\<close>

definition V9_load_csv :: "V9_dashboard \<Rightarrow> table \<Rightarrow> py_error option \<times> V9_dashboard" where
  "V9_load_csv s df =
     (let s0 = s\<lparr>V9_data := Some df\<rparr> in
      case V9_read_series df of
        Inl e \<Rightarrow> (Some e, s0)
      | Inr (time, phases) \<Rightarrow>
          (case make_cards (detect [''time''] (columns df)) time phases (select_number df) of
             (Some e, cards) \<Rightarrow> (Some e, s0\<lparr>V9_cards := cards\<rparr>)
           | (None, cards) \<Rightarrow>
               (case V9_load_gps (s0\<lparr>V9_cards := cards\<rparr>) df of
                  (Some e, s1) \<Rightarrow> (Some e, s1)
                | (None, s1) \<Rightarrow>
                    (let s2 = s1\<lparr>V9_time := Some time\<rparr>;
                         s3 = setMaximum (int (length time) - 1) s2
                     in if slider_value s3 = slider_value s2 then (None, s3)
                        else V9_update_all s3 (slider_value s3)))))"


section \<open>V12b: \<open>AttitudeViewer\<close>\<close>

text \<open>
  \<open>update_all\<close> calls \<open>self.attitude.update(np.radians(pitch), np.radians(roll),
  np.radians(yaw))\<close> with three values of the table, in degrees. The viewer clears its
  axes and draws one line from them. It is modelled by the three table values of the
  last call, \<open>None\<close> before the first; the conversion to radians and the drawing are
  floating-point computations outside the model.
\<close>

record attitude_viewer =
  att_degrees :: "(real \<times> real \<times> real) option"

definition attitude_update :: "attitude_viewer \<Rightarrow> real \<Rightarrow> real \<Rightarrow> real \<Rightarrow> attitude_viewer" where
  "attitude_update viewer pitch roll yaw = viewer\<lparr>att_degrees := Some (pitch, roll, yaw)\<rparr>"

section \<open>V12b: \<open>RocketDashboard.update_all\<close>\<close>

record V12b_dashboard =
  V12b_data :: "table option"
  V12b_cards :: "graph_card list"
  V12b_attitude :: "attitude_viewer option"

text \<open>
  \<open>self.data.filter(regex=key, axis=1).values[index][0]\<close>: the cell at row \<open>index\<close>
  of the first column whose name contains \<open>key\<close> (the regular expression is matched
  against the name as it is, without lower-casing).
\<close>

definition filter_regex_cell :: "table \<Rightarrow> string \<Rightarrow> int \<Rightarrow> py_error + cell" where
  "filter_regex_cell df key index =
     py_bind (py_get (filter (\<lambda>(c, col). str_in key c) df) 0) (\<lambda>(c, col). py_get col index)"

text \<open>
  The \<open>try\<close> block at the end of \<open>update_all\<close>. Every exception in it is caught by the
  bare \<open>except: pass\<close>, which leaves the viewer as it was.
\<close>

definition attitude_block :: "V12b_dashboard \<Rightarrow> table \<Rightarrow> int \<Rightarrow> V12b_dashboard" where
  "attitude_block s df index =
     (case
        py_bind (filter_regex_cell df ''pitch'' index) (\<lambda>pitch.
        py_bind (filter_regex_cell df ''roll'' index) (\<lambda>roll.
        py_bind (filter_regex_cell df ''yaw'' index) (\<lambda>yaw.
        py_bind (case V12b_attitude s of None \<Rightarrow> Inl AttributeError | Some v \<Rightarrow> Inr v) (\<lambda>v.
        py_bind (as_float pitch) (\<lambda>p.
        py_bind (as_float roll) (\<lambda>r.
        py_bind (as_float yaw) (\<lambda>y.
          Inr (attitude_update v p r y))))))))
      of Inl e \<Rightarrow> s
       | Inr v' \<Rightarrow> s\<lparr>V12b_attitude := Some v'\<rparr>)"

definition V12b_update_all :: "V12b_dashboard \<Rightarrow> int \<Rightarrow> py_error option \<times> V12b_dashboard" where
  "V12b_update_all s index =
     (case V12b_data s of
        None \<Rightarrow> (None, s)
      | Some df \<Rightarrow>
          (case py_get (filter (\<lambda>c. str_in ''time'' (lower c)) (columns df)) 0 of
             Inl e \<Rightarrow> (Some e, s)
           | Inr time \<Rightarrow>
               (case py_bind (df_values df (Some time)) (\<lambda>col. py_get col index) of
                  Inl e \<Rightarrow> (Some e, s)
                | Inr t \<Rightarrow>
                    (case update_cards (V12b_cards s) t index of
                       (Some e, cs) \<Rightarrow> (Some e, s\<lparr>V12b_cards := cs\<rparr>)
                     | (None, cs) \<Rightarrow>
                         (None, attitude_block (s\<lparr>V12b_cards := cs\<rparr>) df index)))))"

section \<open>V8: \<open>RocketDashboard.update_all\<close>\<close>

record V8_dashboard =
  V8_data :: "table option"
  V8_time_col :: "string option"
  V8_cards :: "graph_card list"
  V8_gps_map :: "gps_map option"

definition V8_update_all :: "V8_dashboard \<Rightarrow> int \<Rightarrow> py_error option \<times> V8_dashboard" where
  "V8_update_all s index =
     (case V8_data s of
        None \<Rightarrow> (None, s)
      | Some df \<Rightarrow>
          (case py_bind (df_values df (V8_time_col s)) (\<lambda>col. py_get col index) of
             Inl e \<Rightarrow> (Some e, s)
           | Inr t \<Rightarrow>
               (case update_cards (V8_cards s) t index of
                  (Some e, cs) \<Rightarrow> (Some e, s\<lparr>V8_cards := cs\<rparr>)
                | (None, cs) \<Rightarrow>
                    (case V8_gps_map s of
                       None \<Rightarrow> (None, s\<lparr>V8_cards := cs\<rparr>)
                     | Some g \<Rightarrow>
                         (case gps_update_cursor g index of
                            (r, g') \<Rightarrow> (r, s\<lparr>V8_cards := cs, V8_gps_map := Some g'\<rparr>))))))"

section \<open>V7: \<open>MiniGraph\<close> and \<open>RocketDashboard.slider_update\<close>\<close>

record mini_graph =
  mg_cursor :: "cell option"
  mg_dot :: "(cell \<times> cell) option"

text \<open>\<open>MiniGraph.update_cursor(t, y)\<close>; the cursor line is \<open>None\<close> until \<open>plot\<close>.\<close>

definition mg_update_cursor :: "mini_graph \<Rightarrow> cell \<Rightarrow> cell \<Rightarrow> py_error + mini_graph" where
  "mg_update_cursor g t y =
     (if mg_cursor g = None then Inl AttributeError
      else Inr (g\<lparr>mg_cursor := Some t, mg_dot := Some (t, y)\<rparr>))"

record V7_dashboard =
  V7_data :: "table option"
  V7_time_col :: "string option"
  V7_graphs :: "(mini_graph \<times> string) list"

fun V7_update_graphs :: "table \<Rightarrow> cell \<Rightarrow> int \<Rightarrow> (mini_graph \<times> string) list
    \<Rightarrow> py_error option \<times> (mini_graph \<times> string) list" where
  "V7_update_graphs df t index [] = (None, [])"
| "V7_update_graphs df t index ((graph, col) # rest) =
     (case py_bind (df_values df (Some col)) (\<lambda>vals. py_bind (py_get vals index)
             (\<lambda>y. mg_update_cursor graph t y)) of
        Inl e \<Rightarrow> (Some e, (graph, col) # rest)
      | Inr graph' \<Rightarrow>
          (case V7_update_graphs df t index rest of
             (r, rest') \<Rightarrow> (r, (graph', col) # rest')))"

definition V7_slider_update :: "V7_dashboard \<Rightarrow> int \<Rightarrow> py_error option \<times> V7_dashboard" where
  "V7_slider_update s index =
     (case V7_data s of
        None \<Rightarrow> (None, s)
      | Some df \<Rightarrow>
          (case py_bind (df_values df (V7_time_col s)) (\<lambda>time. py_get time index) of
             Inl e \<Rightarrow> (Some e, s)
           | Inr t \<Rightarrow>
               (case V7_update_graphs df t index (V7_graphs s) of
                  (r, gs) \<Rightarrow> (r, s\<lparr>V7_graphs := gs\<rparr>))))"


section \<open>The unnamed dashboard (part 000): gauges and the cursor notification\<close>









subsection \<open>\<open>HUDGauge\<close>\<close>





subsection \<open>The dashboard\<close>

















subsection \<open>\<open>load_csv\<close> and \<open>plot_selected\<close> of the unnamed dashboard\<close>












section \<open>Properties of phase detection\<close>

lemma length_np_diff: "length (np_diff xs) = length xs - 1"
  by (induction xs rule: np_diff.induct) auto

lemma np_gradient_Inr:
  assumes "length x = length f" and "2 \<le> length f"
  shows "\<exists>vel. np_gradient f x = Inr vel \<and> length vel = length f"
  using assms by (simp add: np_gradient_def Let_def)

lemma np_gradient_Inl:
  "np_gradient f x = Inl e \<longleftrightarrow>
     (length x \<noteq> length f \<and> e = ValueError) \<or> (length x = length f \<and> length f < 2 \<and> e = IndexError)"
  by (auto simp add: np_gradient_def Let_def)

lemma argmax_from_inv:
  assumes "mi < length ps" and "mv = ps ! mi"
    and "\<forall>j < length ps. ps ! j \<le> mv" and "\<forall>j < mi. ps ! j < mv"
  shows "argmax_from mv mi (length ps) xs < length (ps @ xs) \<and>
         (\<forall>j < length (ps @ xs). (ps @ xs) ! j \<le> (ps @ xs) ! argmax_from mv mi (length ps) xs) \<and>
         (\<forall>j < argmax_from mv mi (length ps) xs. (ps @ xs) ! j < (ps @ xs) ! argmax_from mv mi (length ps) xs)"
  using assms
proof (induction xs arbitrary: mv mi ps)
  case Nil
  then show ?case by simp
next
  case (Cons x xs)
  let ?qs = "ps @ [x]"
  show ?case
  proof (cases "x > mv")
    case True
    have a: "length ps < length ?qs" by simp
    have b: "x = ?qs ! length ps" by simp
    have c: "\<forall>j < length ?qs. ?qs ! j \<le> x"
      using Cons.prems True by (auto simp: nth_append less_Suc_eq intro: less_imp_le order_trans)
    have d: "\<forall>j < length ps. ?qs ! j < x"
      using Cons.prems True by (auto simp: nth_append)
    from Cons.IH[OF a b c d] True show ?thesis by simp
  next
    case False
    have a: "mi < length ?qs" using Cons.prems by simp
    have b: "mv = ?qs ! mi" using Cons.prems by (simp add: nth_append)
    have c: "\<forall>j < length ?qs. ?qs ! j \<le> mv"
      using Cons.prems False by (auto simp: nth_append less_Suc_eq)
    have d: "\<forall>j < mi. ?qs ! j < mv"
      using Cons.prems by (auto simp: nth_append)
    from Cons.IH[OF a b c d] False show ?thesis by simp
  qed
qed

lemma np_argmax_first_max:
  assumes "xs \<noteq> []"
  shows "\<exists>k. np_argmax xs = Inr k \<and> k < length xs \<and>
           (\<forall>j < length xs. xs ! j \<le> xs ! k) \<and> (\<forall>j < k. xs ! j < xs ! k)"
proof -
  from assms obtain x ys where xs: "xs = x # ys" by (cases xs) auto
  have "argmax_from x 0 (length [x]) ys < length ([x] @ ys) \<and>
         (\<forall>j < length ([x] @ ys). ([x] @ ys) ! j \<le> ([x] @ ys) ! argmax_from x 0 (length [x]) ys) \<and>
         (\<forall>j < argmax_from x 0 (length [x]) ys. ([x] @ ys) ! j < ([x] @ ys) ! argmax_from x 0 (length [x]) ys)"
    by (rule argmax_from_inv) auto
  then show ?thesis by (simp add: xs np_argmax_def)
qed

lemma first_true_Some:
  "first_true bs = Some k \<Longrightarrow> k < length bs \<and> bs ! k \<and> (\<forall>j < k. \<not> bs ! j)"
proof (induction bs arbitrary: k)
  case Nil
  then show ?case by simp
next
  case (Cons b bs)
  show ?case
  proof (cases b)
    case True
    with Cons.prems show ?thesis by simp
  next
    case False
    with Cons.prems obtain k' where k': "first_true bs = Some k'" "k = Suc k'" by auto
    from Cons.IH[OF k'(1)] False k'(2) show ?thesis
      by (auto simp: nth_Cons split: nat.splits)
  qed
qed

lemma first_true_None: "first_true bs = None \<Longrightarrow> \<forall>j < length bs. \<not> bs ! j"
  by (induction bs) (auto simp: nth_Cons split: if_splits nat.splits)

lemma np_argmax_mask_spec:
  assumes "bs \<noteq> []"
  shows "\<exists>k. np_argmax_mask bs = Inr k \<and> k < length bs \<and>
           ((bs ! k \<and> (\<forall>j < k. \<not> bs ! j)) \<or> (k = 0 \<and> (\<forall>j < length bs. \<not> bs ! j)))"
proof (cases "first_true bs")
  case None
  with assms first_true_None[OF None] show ?thesis
    by (simp add: np_argmax_mask_def)
next
  case (Some k)
  with assms first_true_Some[OF Some] show ?thesis
    by (simp add: np_argmax_mask_def)
qed

lemma np_min_Inr: "xs \<noteq> [] \<Longrightarrow> \<exists>m. np_min xs = Inr m"
  by (cases xs) (auto simp: np_min_def)

lemma py_get_nat: "i < length xs \<Longrightarrow> py_get xs (int i) = Inr (xs ! i)"
  by (simp add: py_get_def Let_def)

lemma phase_indices_spec:
  assumes len: "length time = length altitude" and two: "2 \<le> length altitude"
  shows "\<exists>vel b a d m l.
           np_gradient altitude time = Inr vel \<and> length vel = length altitude \<and>
           np_argmax_mask (map (\<lambda>v. fgt v 5) vel) = Inr b \<and> b < length altitude \<and>
           np_argmax altitude = Inr a \<and> a < length altitude \<and>
           np_argmax_mask (map (\<lambda>v. flt v (- 2)) (drop a vel)) = Inr d \<and>
           a + d < length altitude \<and>
           np_min altitude = Inr m \<and>
           np_argmax_mask (map (\<lambda>h. h > m + 2) (rev altitude)) = Inr l \<and>
           l < length altitude \<and>
           phase_indices time altitude =
             Inr \<lparr>boost = b, coast = (b + a) div 2, apogee = a, descent = a + d,
                  landed = int (length altitude) - int l\<rparr>"
proof -
  from np_gradient_Inr[OF len two] obtain vel
    where vel: "np_gradient altitude time = Inr vel" "length vel = length altitude" by blast
  have ne: "altitude \<noteq> []" using two by auto
  have "map (\<lambda>v. fgt v 5) vel \<noteq> []" using vel(2) ne by auto
  from np_argmax_mask_spec[OF this] obtain b
    where b: "np_argmax_mask (map (\<lambda>v. fgt v 5) vel) = Inr b" "b < length altitude"
    using vel(2) by auto
  from np_argmax_first_max[OF ne] obtain a
    where a: "np_argmax altitude = Inr a" "a < length altitude" by blast
  have "map (\<lambda>v. flt v (- 2)) (drop a vel) \<noteq> []" using a(2) vel(2) by simp
  from np_argmax_mask_spec[OF this] obtain d
    where d: "np_argmax_mask (map (\<lambda>v. flt v (- 2)) (drop a vel)) = Inr d"
      "d < length altitude - a"
    using vel(2) by auto
  from np_min_Inr[OF ne] obtain m where m: "np_min altitude = Inr m" by blast
  have "map (\<lambda>h. h > m + 2) (rev altitude) \<noteq> []" using ne by simp
  from np_argmax_mask_spec[OF this] obtain l
    where l: "np_argmax_mask (map (\<lambda>h. h > m + 2) (rev altitude)) = Inr l"
      "l < length altitude"
    by auto
  have "phase_indices time altitude =
          Inr \<lparr>boost = b, coast = (b + a) div 2, apogee = a, descent = a + d,
               landed = int (length altitude) - int l\<rparr>"
    by (simp add: phase_indices_def py_bind_def vel(1) b(1) a(1) d(1) m l(1))
  with vel b a d m l show ?thesis by auto
qed

lemma detect_phases_of_indices:
  assumes "phase_indices time altitude = Inr ix"
    and "boost ix < length time" and "coast ix < length time" and "apogee ix < length time"
    and "descent ix < length time" and "0 < landed ix" and "landed ix \<le> int (length time)"
  shows "detect_phases time altitude =
           Inr [(''Boost'', time ! boost ix), (''Coast'', time ! coast ix),
                (''Apogee'', time ! apogee ix), (''Descent'', time ! descent ix),
                (''Landed'', time ! nat (landed ix - 1))]"
proof -
  have "py_get time (landed ix - 1) = Inr (time ! nat (landed ix - 1))"
    using assms(6,7) by (simp add: py_get_def Let_def)
  then show ?thesis
    using assms(1-5) by (simp add: detect_phases_def py_bind_def py_get_nat)
qed

lemma detect_phases_total:
  assumes len: "length time = length altitude" and two: "2 \<le> length altitude"
  shows "\<exists>ix. phase_indices time altitude = Inr ix \<and>
           detect_phases time altitude =
             Inr [(''Boost'', time ! boost ix), (''Coast'', time ! coast ix),
                  (''Apogee'', time ! apogee ix), (''Descent'', time ! descent ix),
                  (''Landed'', time ! nat (landed ix - 1))]"
proof -
  from phase_indices_spec[OF len two] obtain b a d l where
    ix: "phase_indices time altitude =
           Inr \<lparr>boost = b, coast = (b + a) div 2, apogee = a, descent = a + d,
                landed = int (length altitude) - int l\<rparr>"
    and bounds: "b < length altitude" "a < length altitude" "a + d < length altitude"
      "l < length altitude"
    by blast
  have "(b + a) div 2 < length altitude" using bounds by linarith
  with detect_phases_of_indices[OF ix] bounds len ix show ?thesis by simp
qed

lemmas phase_eval =
  detect_phases_def py_get_def phase_indices_def np_gradient_def py_bind_def
  np_argmax_mask_def np_argmax_def np_min_def interior_uniform_def interior_uneven_def
  fdiv_def fsub_def fadd_def fmul_def zero_sgn_def inf_sgn_def Let_def upt_rec

text \<open>
  Claim C1, as the code has it. For series of equal length at least 2, \<open>detect_phases\<close>
  computes its indices without failing: Boost is the first row whose vertical rate
  exceeds 5 (row 0 when there is none), Apogee the first row of the maximum altitude, Coast
  the floor of their mean, and Descent the first row from Apogee on whose rate is
  below -2 (Apogee when there is none). Apogee \<open>\<le>\<close> Descent always holds and Coast lies
  between Boost and Apogee, in whichever order these two are. The chain
  Boost \<open>\<le>\<close> Coast \<open>\<le>\<close> Apogee \<open>\<le>\<close> Descent holds exactly when Boost \<open>\<le>\<close> Apogee, which
  the code does not enforce: the search for Boost runs over the whole series.
\<close>

theorem phase_order_iff_boost_before_apogee:
  assumes len: "length time = length altitude" and two: "2 \<le> length altitude"
  shows "\<exists>ix vel. phase_indices time altitude = Inr ix \<and>
           np_gradient altitude time = Inr vel \<and> length vel = length altitude \<and>
           boost ix < length altitude \<and>
           ((fgt (vel ! boost ix) 5 \<and> (\<forall>j < boost ix. \<not> fgt (vel ! j) 5)) \<or>
            (boost ix = 0 \<and> (\<forall>j < length altitude. \<not> fgt (vel ! j) 5))) \<and>
           apogee ix < length altitude \<and>
           (\<forall>j < length altitude. altitude ! j \<le> altitude ! apogee ix) \<and>
           (\<forall>j < apogee ix. altitude ! j < altitude ! apogee ix) \<and>
           coast ix = (boost ix + apogee ix) div 2 \<and>
           min (boost ix) (apogee ix) \<le> coast ix \<and> coast ix \<le> max (boost ix) (apogee ix) \<and>
           apogee ix \<le> descent ix \<and> descent ix < length altitude \<and>
           ((flt (vel ! descent ix) (- 2) \<and>
             (\<forall>j < descent ix. apogee ix \<le> j \<longrightarrow> \<not> flt (vel ! j) (- 2))) \<or>
            (descent ix = apogee ix \<and>
             (\<forall>j < length altitude. apogee ix \<le> j \<longrightarrow> \<not> flt (vel ! j) (- 2)))) \<and>
           ((boost ix \<le> coast ix \<and> coast ix \<le> apogee ix \<and> apogee ix \<le> descent ix)
              \<longleftrightarrow> boost ix \<le> apogee ix)"
proof -
  from phase_indices_spec[OF len two] obtain vel b a d l where
    vel: "np_gradient altitude time = Inr vel" "length vel = length altitude"
    and b: "np_argmax_mask (map (\<lambda>v. fgt v 5) vel) = Inr b" "b < length altitude"
    and aeq: "np_argmax altitude = Inr a"
    and a: "a < length altitude"
    and d: "np_argmax_mask (map (\<lambda>v. flt v (- 2)) (drop a vel)) = Inr d"
      "a + d < length altitude"
    and ix: "phase_indices time altitude =
           Inr \<lparr>boost = b, coast = (b + a) div 2, apogee = a, descent = a + d,
                landed = int (length altitude) - int l\<rparr>"
    by blast
  have ne0: "altitude \<noteq> []" using two by auto
  from np_argmax_first_max[OF ne0] aeq
  have amax: "\<forall>j < length altitude. altitude ! j \<le> altitude ! a"
    "\<forall>j < a. altitude ! j < altitude ! a"
    by auto
  have ne1: "map (\<lambda>v. fgt v 5) vel \<noteq> []" using vel(2) two by auto
  from np_argmax_mask_spec[OF ne1] b(1) vel(2)
  have bchar: "(fgt (vel ! b) 5 \<and> (\<forall>j < b. \<not> fgt (vel ! j) 5)) \<or>
               (b = 0 \<and> (\<forall>j < length altitude. \<not> fgt (vel ! j) 5))"
    by auto
  have ne2: "map (\<lambda>v. flt v (- 2)) (drop a vel) \<noteq> []" using vel(2) a by simp
  from np_argmax_mask_spec[OF ne2] d(1)
  have d0: "(map (\<lambda>v. flt v (- 2)) (drop a vel) ! d \<and>
              (\<forall>j < d. \<not> map (\<lambda>v. flt v (- 2)) (drop a vel) ! j)) \<or>
            (d = 0 \<and> (\<forall>j < length (drop a vel). \<not> map (\<lambda>v. flt v (- 2)) (drop a vel) ! j))"
    by auto
  have nth_drop_vel: "\<And>j. j < length altitude - a \<Longrightarrow>
      map (\<lambda>v. flt v (- 2)) (drop a vel) ! j = flt (vel ! (a + j)) (- 2)"
    using vel(2) a by simp
  have dchar: "(flt (vel ! (a + d)) (- 2) \<and>
                 (\<forall>j < a + d. a \<le> j \<longrightarrow> \<not> flt (vel ! j) (- 2))) \<or>
               (a + d = a \<and> (\<forall>j < length altitude. a \<le> j \<longrightarrow> \<not> flt (vel ! j) (- 2)))"
  proof -
    from d0 show ?thesis
    proof
      assume h: "map (\<lambda>v. flt v (- 2)) (drop a vel) ! d \<and>
              (\<forall>j < d. \<not> map (\<lambda>v. flt v (- 2)) (drop a vel) ! j)"
      have "flt (vel ! (a + d)) (- 2)" using h nth_drop_vel[of d] d(2) by simp
      moreover have "\<forall>j < a + d. a \<le> j \<longrightarrow> \<not> flt (vel ! j) (- 2)"
      proof (intro allI impI)
        fix j assume j: "j < a + d" "a \<le> j"
        then have "j - a < d" by simp
        with h have "\<not> map (\<lambda>v. flt v (- 2)) (drop a vel) ! (j - a)" by blast
        moreover have "j - a < length altitude - a" using j d(2) by simp
        ultimately show "\<not> flt (vel ! j) (- 2)" using nth_drop_vel[of "j - a"] j by simp
      qed
      ultimately show ?thesis by blast
    next
      assume h: "d = 0 \<and> (\<forall>j < length (drop a vel). \<not> map (\<lambda>v. flt v (- 2)) (drop a vel) ! j)"
      have "\<forall>j < length altitude. a \<le> j \<longrightarrow> \<not> flt (vel ! j) (- 2)"
      proof (intro allI impI)
        fix j assume j: "j < length altitude" "a \<le> j"
        then have ja: "j - a < length altitude - a" using a by simp
        with h vel(2) have "\<not> map (\<lambda>v. flt v (- 2)) (drop a vel) ! (j - a)" by simp
        then show "\<not> flt (vel ! j) (- 2)" using nth_drop_vel[OF ja] j by simp
      qed
      with h show ?thesis by simp
    qed
  qed
  have arith: "min b a \<le> (b + a) div 2" "(b + a) div 2 \<le> max b a"
    "(b \<le> (b + a) div 2 \<and> (b + a) div 2 \<le> a \<and> a \<le> a + d) \<longleftrightarrow> b \<le> a"
    by (auto simp: min_def max_def)
  show ?thesis
    using ix vel b(2) a amax bchar dchar d(2) arith by simp
qed

text \<open>The series of the specification: Boost 0, Coast 2, Apogee 4, Descent 4.\<close>

theorem phase_order_witness:
  "\<exists>ix. phase_indices [0,1,2,3,4,5,6,7,8] [0,10,40,90,95,60,20,2,1] = Inr ix \<and>
        boost ix = 0 \<and> coast ix = 2 \<and> apogee ix = 4 \<and> descent ix = 4 \<and>
        ((boost ix \<le> coast ix \<and> coast ix \<le> apogee ix \<and> apogee ix \<le> descent ix)
              \<longleftrightarrow> boost ix \<le> apogee ix)"
proof -
  have e: "phase_indices [0,1,2,3,4,5,6,7,8] [0,10,40,90,95,60,20,2,1] =
      Inr \<lparr>boost = 0, coast = 2, apogee = 4, descent = 4, landed = 7\<rparr>"
    by (simp add: phase_eval)
  have h1: "length [0,1,2,3,4,5,6,7,8::real] = length [0,10,40,90,95,60,20,2,1::real]" by simp
  have h2: "2 \<le> length [0,10,40,90,95,60,20,2,1::real]" by simp
  from phase_order_iff_boost_before_apogee[OF h1 h2] e show ?thesis by auto
qed

text \<open>
  Claim C1 as stated fails: time is increasing, the altitude starts at its maximum and
  rises again at the end. Boost is row 2, Coast row 1, Apogee and Descent row 0.
\<close>

theorem boost_after_apogee_counterexample:
  "sorted [0, 1, 2 :: real] \<and>
   phase_indices [0, 1, 2] [100, 0, 50] =
     Inr \<lparr>boost = 2, coast = 1, apogee = 0, descent = 0, landed = 3\<rparr>"
  by (simp add: phase_eval)

text \<open>
  Claim C8. For series of equal length at least 2, the Apogee index computed by
  \<open>detect_phases\<close> is the position of the maximum altitude, the first one when the
  maximum occurs several times, and the dictionary maps \<open>Apogee\<close> to the time at that
  row.
\<close>

theorem apogee_is_first_maximum:
  assumes len: "length time = length altitude" and two: "2 \<le> length altitude"
  shows "\<exists>ix m. phase_indices time altitude = Inr ix \<and>
           detect_phases time altitude = Inr m \<and>
           map_of m ''Apogee'' = Some (time ! apogee ix) \<and>
           apogee ix < length altitude \<and>
           (\<forall>j < length altitude. altitude ! j \<le> altitude ! apogee ix) \<and>
           (\<forall>j < apogee ix. altitude ! j < altitude ! apogee ix)"
proof -
  from phase_indices_spec[OF len two] obtain b a d l where
    a: "np_argmax altitude = Inr a"
    and ix: "phase_indices time altitude =
           Inr \<lparr>boost = b, coast = (b + a) div 2, apogee = a, descent = a + d,
                landed = int (length altitude) - int l\<rparr>"
    by blast
  have ne: "altitude \<noteq> []" using two by auto
  from np_argmax_first_max[OF ne] a
  have amax: "a < length altitude" "\<forall>j < length altitude. altitude ! j \<le> altitude ! a"
    "\<forall>j < a. altitude ! j < altitude ! a"
    by auto
  from detect_phases_total[OF len two] ix
  have "detect_phases time altitude =
          Inr [(''Boost'', time ! b), (''Coast'', time ! ((b + a) div 2)),
               (''Apogee'', time ! a), (''Descent'', time ! (a + d)),
               (''Landed'', time ! nat (int (length altitude) - int l - 1))]"
    by auto
  with ix amax show ?thesis by simp
qed

text \<open>For the altitudes 0, 10, 40, 90, 95, 60, 20, 2, 1 the Apogee index is 4.\<close>

theorem apogee_example_witness:
  "\<exists>ix. phase_indices [0,1,2,3,4,5,6,7,8] [0,10,40,90,95,60,20,2,1] = Inr ix \<and>
        apogee ix = 4 \<and>
        (\<forall>j < 9. [0,10,40,90,95,60,20,2,1::real] ! j \<le> [0,10,40,90,95,60,20,2,1] ! apogee ix)"
proof -
  have e: "phase_indices [0,1,2,3,4,5,6,7,8] [0,10,40,90,95,60,20,2,1] =
      Inr \<lparr>boost = 0, coast = 2, apogee = 4, descent = 4, landed = 7\<rparr>"
    by (simp add: phase_eval)
  have h1: "length [0,1,2,3,4,5,6,7,8::real] = length [0,10,40,90,95,60,20,2,1::real]" by simp
  have h2: "2 \<le> length [0,10,40,90,95,60,20,2,1::real]" by simp
  from apogee_is_first_maximum[OF h1 h2] e show ?thesis by auto
qed

text \<open>
  Claim C7, as the code has it. \<open>detect_phases\<close> has no check of its own and no
  InvalidSeries result. It raises only where \<open>np.gradient\<close> does: ValueError when the two
  lengths differ and IndexError when there are fewer than two rows. For every pair of
  series of equal length at least 2 it returns a dictionary with the five phases,
  whether or not time is monotonic.
\<close>

theorem detect_phases_raises_only_on_shape:
  "(length time \<noteq> length altitude \<longrightarrow> detect_phases time altitude = Inl ValueError) \<and>
   (length time = length altitude \<and> length altitude < 2 \<longrightarrow>
      detect_phases time altitude = Inl IndexError) \<and>
   (length time = length altitude \<and> 2 \<le> length altitude \<longrightarrow>
      (\<exists>m. detect_phases time altitude = Inr m \<and>
           map fst m = [''Boost'', ''Coast'', ''Apogee'', ''Descent'', ''Landed'']))"
proof (intro conjI impI)
  assume "length time \<noteq> length altitude"
  then show "detect_phases time altitude = Inl ValueError"
    by (simp add: detect_phases_def phase_indices_def np_gradient_def py_bind_def)
next
  assume "length time = length altitude \<and> length altitude < 2"
  then show "detect_phases time altitude = Inl IndexError"
    by (simp add: detect_phases_def phase_indices_def np_gradient_def py_bind_def)
next
  assume "length time = length altitude \<and> 2 \<le> length altitude"
  then have len: "length time = length altitude" and two: "2 \<le> length altitude" by auto
  from detect_phases_total[OF len two]
  show "\<exists>m. detect_phases time altitude = Inr m \<and>
           map fst m = [''Boost'', ''Coast'', ''Apogee'', ''Descent'', ''Landed'']"
    by auto
qed

text \<open>The three cases at concrete series.\<close>

theorem detect_phases_raises_witness:
  "detect_phases [0, 1] [1, 2, 3] = Inl ValueError \<and>
   detect_phases [0] [1] = Inl IndexError \<and>
   (\<exists>m. detect_phases [0, 1] [3, 8] = Inr m)"
  using detect_phases_raises_only_on_shape[of "[0, 1]" "[1, 2, 3]"]
    detect_phases_raises_only_on_shape[of "[0]" "[1]"]
    detect_phases_raises_only_on_shape[of "[0, 1]" "[3, 8]"]
  by auto

text \<open>
  Claim C7 as stated fails: with the times 0, 2, 1 the call returns a phase
  dictionary.
\<close>

theorem non_monotonic_time_counterexample:
  "\<not> sorted [0, 2, 1 :: real] \<and>
   detect_phases [0, 2, 1] [0, 10, 5] =
     Inr [(''Boost'', 0), (''Coast'', 0), (''Apogee'', 2), (''Descent'', 2), (''Landed'', 1)]"
  by (simp add: phase_eval)

section \<open>Properties of column classification\<close>

lemmas name_eval = lower_def lower_char_def

lemma detect_Some_iff:
  "detect ks cols = Some c \<longleftrightarrow>
     (\<exists>pre post. cols = pre @ c # post \<and> list_ex (\<lambda>k. str_in k (lower c)) ks \<and>
        (\<forall>p \<in> set pre. \<not> list_ex (\<lambda>k. str_in k (lower p)) ks))"
proof (induction cols)
  case Nil
  then show ?case by simp
next
  case (Cons a cols)
  show ?case
  proof (cases "list_ex (\<lambda>k. str_in k (lower a)) ks")
    case True
    have "(\<exists>pre post. a # cols = pre @ c # post \<and> list_ex (\<lambda>k. str_in k (lower c)) ks \<and>
        (\<forall>p \<in> set pre. \<not> list_ex (\<lambda>k. str_in k (lower p)) ks)) \<longleftrightarrow> a = c"
    proof
      assume "\<exists>pre post. a # cols = pre @ c # post \<and> list_ex (\<lambda>k. str_in k (lower c)) ks \<and>
        (\<forall>p \<in> set pre. \<not> list_ex (\<lambda>k. str_in k (lower p)) ks)"
      then obtain pre post where h: "a # cols = pre @ c # post"
        "\<forall>p \<in> set pre. \<not> list_ex (\<lambda>k. str_in k (lower p)) ks" by blast
      show "a = c"
      proof (cases pre)
        case Nil
        with h(1) show ?thesis by simp
      next
        case (Cons b pre')
        with h(1) have "b = a" by simp
        with Cons h(2) True show ?thesis by simp
      qed
    next
      assume "a = c"
      with True have "a # cols = [] @ c # cols \<and> list_ex (\<lambda>k. str_in k (lower c)) ks \<and>
        (\<forall>p \<in> set []. \<not> list_ex (\<lambda>k. str_in k (lower p)) ks)" by simp
      then show "\<exists>pre post. a # cols = pre @ c # post \<and> list_ex (\<lambda>k. str_in k (lower c)) ks \<and>
        (\<forall>p \<in> set pre. \<not> list_ex (\<lambda>k. str_in k (lower p)) ks)" by blast
    qed
    with True show ?thesis by auto
  next
    case False
    have "(\<exists>pre post. a # cols = pre @ c # post \<and> list_ex (\<lambda>k. str_in k (lower c)) ks \<and>
        (\<forall>p \<in> set pre. \<not> list_ex (\<lambda>k. str_in k (lower p)) ks)) \<longleftrightarrow>
          (\<exists>pre post. cols = pre @ c # post \<and> list_ex (\<lambda>k. str_in k (lower c)) ks \<and>
        (\<forall>p \<in> set pre. \<not> list_ex (\<lambda>k. str_in k (lower p)) ks))" (is "?L \<longleftrightarrow> ?R")
    proof
      assume ?L
      then obtain pre post where h: "a # cols = pre @ c # post"
        "list_ex (\<lambda>k. str_in k (lower c)) ks"
        "\<forall>p \<in> set pre. \<not> list_ex (\<lambda>k. str_in k (lower p)) ks" by blast
      show ?R
      proof (cases pre)
        case Nil
        with h(1) have "a = c" by simp
        with h(2) False show ?thesis by simp
      next
        case (Cons b pre')
        with h(1) have "cols = pre' @ c # post" by simp
        moreover have "\<forall>p \<in> set pre'. \<not> list_ex (\<lambda>k. str_in k (lower p)) ks"
          using h(3) Cons by simp
        ultimately show ?thesis using h(2) by blast
      qed
    next
      assume ?R
      then obtain pre post where h: "cols = pre @ c # post"
        "list_ex (\<lambda>k. str_in k (lower c)) ks"
        "\<forall>p \<in> set pre. \<not> list_ex (\<lambda>k. str_in k (lower p)) ks" by blast
      have "a # cols = (a # pre) @ c # post" using h(1) by simp
      moreover have "\<forall>p \<in> set (a # pre). \<not> list_ex (\<lambda>k. str_in k (lower p)) ks"
        using h(3) False by simp
      ultimately show ?L using h(2) by blast
    qed
    with False Cons.IH show ?thesis by simp
  qed
qed

lemma detect_None_iff:
  "detect ks cols = None \<longleftrightarrow> (\<forall>c \<in> set cols. \<not> list_ex (\<lambda>k. str_in k (lower c)) ks)"
  by (induction cols) auto

text \<open>
  Claim C4, as the code has it. \<open>detect(["time"])\<close> of V9 returns the first column in
  table order whose lower-cased name contains \<open>time\<close>, so no later column is the time
  column, and it returns \<open>None\<close> exactly when no name contains \<open>time\<close>. A name that is
  just \<open>t\<close> is not matched.
\<close>

theorem detect_time_first_match:
  "(detect [''time''] cols = Some c \<longleftrightarrow>
      (\<exists>pre post. cols = pre @ c # post \<and> str_in ''time'' (lower c) \<and>
         (\<forall>p \<in> set pre. \<not> str_in ''time'' (lower p)))) \<and>
   (detect [''time''] cols = None \<longleftrightarrow> (\<forall>c \<in> set cols. \<not> str_in ''time'' (lower c)))"
  using detect_Some_iff[of "[''time'']" cols c] detect_None_iff[of "[''time'']" cols]
  by simp

text \<open>Two tables: the second of three columns is the first match; no match.\<close>

theorem detect_time_first_match_witness:
  "detect [''time''] [''Alt_m'', ''Time(s)'', ''time_b''] = Some ''Time(s)'' \<and>
   detect [''time''] [''Alt_m'', ''Roll_deg''] = None"
proof -
  have "[''Alt_m'', ''Time(s)'', ''time_b''] = [''Alt_m''] @ ''Time(s)'' # [''time_b''] \<and>
        str_in ''time'' (lower ''Time(s)'') \<and>
        (\<forall>p \<in> set [''Alt_m'']. \<not> str_in ''time'' (lower p))"
    by (simp add: name_eval)
  then have "\<exists>pre post. [''Alt_m'', ''Time(s)'', ''time_b''] = pre @ ''Time(s)'' # post \<and>
        str_in ''time'' (lower ''Time(s)'') \<and>
        (\<forall>p \<in> set pre. \<not> str_in ''time'' (lower p))"
    by blast
  moreover have "\<forall>c \<in> set [''Alt_m'', ''Roll_deg'']. \<not> str_in ''time'' (lower c)"
    by (simp add: name_eval)
  ultimately show ?thesis
    using detect_time_first_match[of "[''Alt_m'', ''Time(s)'', ''time_b'']" "''Time(s)''"]
      detect_time_first_match[of "[''Alt_m'', ''Roll_deg'']" "''x''"]
    by blast
qed

text \<open>
  Claim C4 as stated fails on the columns \<open>t\<close>, \<open>Time_a\<close>, \<open>time_b\<close>. The rule of the
  claim (used by V3) makes \<open>t\<close> a time column, yet \<open>detect\<close> of V9 returns \<open>Time_a\<close>,
  and the loops of the unnamed dashboard and of V8, which overwrite the attribute at
  every match, end with \<open>time_b\<close>.
\<close>

theorem time_column_counterexample:
  "V3_category ''t'' True = Some ''Time'' \<and>
   detect [''time''] [''t'', ''Time_a'', ''time_b''] = Some ''Time_a'' \<and>
   time_col (load_csv_columns init_channels
     [(''t'', True), (''Time_a'', True), (''time_b'', True)]) = Some ''time_b'' \<and>
   V8_time_loop None [''t'', ''Time_a'', ''time_b''] = Some ''time_b''"
  by (simp add: name_eval V3_category_def load_csv_columns_def load_csv_column_def
      assign_role_def assign_accel_def init_channels_def)

lemma yaw_col_assign_role:
  "yaw_col (assign_role st c) = Some d \<Longrightarrow>
     yaw_col st = Some d \<or>
     (d = c \<and> str_in ''yaw'' (lower c) \<and> \<not> str_in ''set'' (lower c) \<and> \<not> str_in ''sp'' (lower c))"
  by (auto simp: assign_role_def Let_def split: if_splits)

lemma yaw_col_load_csv_column:
  "yaw_col (load_csv_column st col) = yaw_col (assign_role st (fst col))"
  by (simp add: load_csv_column_def assign_accel_def Let_def)

lemma yaw_col_foldl:
  "yaw_col (foldl load_csv_column st cols) = Some d \<Longrightarrow>
     yaw_col st = Some d \<or>
     (str_in ''yaw'' (lower d) \<and> \<not> str_in ''set'' (lower d) \<and> \<not> str_in ''sp'' (lower d))"
proof (induction cols arbitrary: st)
  case Nil
  then show ?case by simp
next
  case (Cons col cols)
  from Cons.IH[of "load_csv_column st col"] Cons.prems
  have "yaw_col (load_csv_column st col) = Some d \<or>
     (str_in ''yaw'' (lower d) \<and> \<not> str_in ''set'' (lower d) \<and> \<not> str_in ''sp'' (lower d))"
    by simp
  then show ?case
    using yaw_col_assign_role[of st "fst col" d] by (auto simp: yaw_col_load_csv_column)
qed

text \<open>
  Claim C5, as the code has it (the unnamed dashboard). A column whose lower-cased
  name contains \<open>yaw\<close> and also \<open>set\<close> or \<open>sp\<close> is never stored as the yaw column:
  the loop body leaves \<open>yaw_col\<close> as it was, and after the whole loop \<open>yaw_col\<close> is
  not that column unless it was before. The column becomes the yaw setpoint column
  when its name contains none of \<open>time\<close>, \<open>alt\<close>, \<open>vel\<close>, which are tested earlier in
  the chain.
\<close>

theorem setpoint_column_never_yaw:
  assumes yaw: "str_in ''yaw'' (lower c)"
    and sp: "str_in ''set'' (lower c) \<or> str_in ''sp'' (lower c)"
  shows "yaw_col (load_csv_column st (c, numeric)) = yaw_col st \<and>
         (\<not> str_in ''time'' (lower c) \<and> \<not> str_in ''alt'' (lower c) \<and> \<not> str_in ''vel'' (lower c)
            \<longrightarrow> yaw_sp_col (load_csv_column st (c, numeric)) = Some c) \<and>
         (yaw_col st \<noteq> Some c \<longrightarrow> yaw_col (load_csv_columns st cols) \<noteq> Some c)"
proof (intro conjI impI)
  show "yaw_col (load_csv_column st (c, numeric)) = yaw_col st"
    using sp by (auto simp: load_csv_column_def assign_role_def assign_accel_def Let_def)
next
  assume "\<not> str_in ''time'' (lower c) \<and> \<not> str_in ''alt'' (lower c) \<and> \<not> str_in ''vel'' (lower c)"
  then show "yaw_sp_col (load_csv_column st (c, numeric)) = Some c"
    using sp by (auto simp: load_csv_column_def assign_role_def assign_accel_def Let_def)
next
  assume n: "yaw_col st \<noteq> Some c"
  show "yaw_col (load_csv_columns st cols) \<noteq> Some c"
  proof
    assume "yaw_col (load_csv_columns st cols) = Some c"
    then have "yaw_col (foldl load_csv_column (st\<lparr>variable_list := []\<rparr>) cols) = Some c"
      by (simp add: load_csv_columns_def)
    from yaw_col_foldl[OF this] n sp show False by auto
  qed
qed

text \<open>The column \<open>yaw_setpoint\<close>, alone and in the table of the specification.\<close>

theorem setpoint_column_witness:
  "yaw_col (load_csv_column init_channels (''yaw_setpoint'', True)) = None \<and>
   yaw_sp_col (load_csv_column init_channels (''yaw_setpoint'', True)) = Some ''yaw_setpoint'' \<and>
   yaw_col (load_csv_columns init_channels
      [(''Time(s)'', True), (''Alt_m'', True), (''VelocityX'', True), (''yaw_setpoint'', True),
       (''Roll_deg'', True)]) \<noteq> Some ''yaw_setpoint''"
proof -
  have y: "str_in ''yaw'' (lower ''yaw_setpoint'')" by (simp add: name_eval)
  have s: "str_in ''set'' (lower ''yaw_setpoint'') \<or> str_in ''sp'' (lower ''yaw_setpoint'')"
    by (simp add: name_eval)
  have e: "\<not> str_in ''time'' (lower ''yaw_setpoint'') \<and> \<not> str_in ''alt'' (lower ''yaw_setpoint'') \<and>
           \<not> str_in ''vel'' (lower ''yaw_setpoint'')"
    by (simp add: name_eval)
  have i: "yaw_col init_channels = None" by (simp add: init_channels_def)
  from setpoint_column_never_yaw[OF y s, of init_channels True
      "[(''Time(s)'', True), (''Alt_m'', True), (''VelocityX'', True), (''yaw_setpoint'', True),
       (''Roll_deg'', True)]"] e i
  show ?thesis by simp
qed

text \<open>
  Claim C5 as stated fails. In V3 the test for yaw, pitch and roll comes before the
  setpoint test, so \<open>yaw_setpoint\<close> is put in the category Orientation. In the unnamed
  dashboard a name that also contains \<open>vel\<close> is taken by the velocity branch.
\<close>

theorem setpoint_counterexample:
  "V3_category ''yaw_setpoint'' True = Some ''Orientation'' \<and>
   str_in ''yaw'' (lower ''yaw_vel_setpoint'') \<and> str_in ''set'' (lower ''yaw_vel_setpoint'') \<and>
   load_csv_column init_channels (''yaw_vel_setpoint'', True) =
     init_channels\<lparr>vel_col := Some ''yaw_vel_setpoint'', variable_list := [''yaw_vel_setpoint'']\<rparr>"
  by (simp add: name_eval V3_category_def load_csv_column_def
      assign_role_def assign_accel_def init_channels_def Let_def)

section \<open>Properties of playback\<close>

lemmas playback_eval = V9_tick_def V9_animate_def V8b_tick_def V8b_animate_def
  V8b_toggle_playback_def timer_start_def timer_stop_def setValue_def Let_def

lemma V9_tick_below_maximum:
  fixes s :: playback
  assumes "slider_minimum s \<le> slider_value s" and "slider_value s < slider_maximum s"
  shows "slider_minimum (V9_tick s) \<le> slider_value (V9_tick s) \<and>
         slider_value (V9_tick s) < slider_maximum (V9_tick s) \<and>
         slider_minimum (V9_tick s) = slider_minimum s \<and>
         slider_maximum (V9_tick s) = slider_maximum s"
  using assms by (auto simp: playback_eval)

lemma V9_ticks_below_maximum:
  fixes s :: playback
  assumes "slider_minimum s \<le> slider_value s" and "slider_value s < slider_maximum s"
  shows "slider_minimum ((V9_tick ^^ n) s) \<le> slider_value ((V9_tick ^^ n) s) \<and>
         slider_value ((V9_tick ^^ n) s) < slider_maximum ((V9_tick ^^ n) s) \<and>
         slider_minimum ((V9_tick ^^ n) s) = slider_minimum s \<and>
         slider_maximum ((V9_tick ^^ n) s) = slider_maximum s"
proof (induction n)
  case 0
  with assms show ?case by simp
next
  case (Suc n)
  then show ?case
    using V9_tick_below_maximum[of "(V9_tick ^^ n) s"] by simp
qed

text \<open>
  Claim C2 on the code of V9. With ten rows the slider runs to 9. After \<open>play\<close> and
  eight timeouts the cursor is at row 8; the ninth timeout computes \<open>v = 9\<close>, finds
  \<open>v >= maximum\<close>, stops the timer and returns before \<open>setValue\<close>. Playback never shows
  the last row.
\<close>

theorem V9_playback_stops_before_last_row:
  "(V9_tick ^^ 8)
     (timer_start \<lparr>slider_value = 0, slider_minimum = 0, slider_maximum = 9, timer_active = False\<rparr>) =
     \<lparr>slider_value = 8, slider_minimum = 0, slider_maximum = 9, timer_active = True\<rparr> \<and>
   (V9_tick ^^ 9)
     (timer_start \<lparr>slider_value = 0, slider_minimum = 0, slider_maximum = 9, timer_active = False\<rparr>) =
     \<lparr>slider_value = 8, slider_minimum = 0, slider_maximum = 9, timer_active = False\<rparr> \<and>
   (\<forall>n. slider_value ((V9_tick ^^ n)
     (timer_start \<lparr>slider_value = 0, slider_minimum = 0, slider_maximum = 9, timer_active = False\<rparr>)) < 9)"
proof (intro conjI allI)
  show "(V9_tick ^^ 8)
     (timer_start \<lparr>slider_value = 0, slider_minimum = 0, slider_maximum = 9, timer_active = False\<rparr>) =
     \<lparr>slider_value = 8, slider_minimum = 0, slider_maximum = 9, timer_active = True\<rparr>"
    by (simp add: playback_eval eval_nat_numeral)
  show "(V9_tick ^^ 9)
     (timer_start \<lparr>slider_value = 0, slider_minimum = 0, slider_maximum = 9, timer_active = False\<rparr>) =
     \<lparr>slider_value = 8, slider_minimum = 0, slider_maximum = 9, timer_active = False\<rparr>"
    by (simp add: playback_eval eval_nat_numeral)
  fix n
  show "slider_value ((V9_tick ^^ n)
     (timer_start \<lparr>slider_value = 0, slider_minimum = 0, slider_maximum = 9, timer_active = False\<rparr>)) < 9"
    using V9_ticks_below_maximum[of "timer_start \<lparr>slider_value = 0, slider_minimum = 0,
        slider_maximum = 9, timer_active = False\<rparr>" n]
    by (simp add: timer_start_def)
qed

text \<open>
  The sibling \<open>animate\<close> of V8b tests the current value instead: nine timeouts reach
  row 9 and the tenth stops the timer.
\<close>

lemma V8b_playback_reaches_last_row:
  "(V8b_tick ^^ 9)
     (V8b_toggle_playback \<lparr>slider_value = 0, slider_minimum = 0, slider_maximum = 9, timer_active = False\<rparr>) =
     \<lparr>slider_value = 9, slider_minimum = 0, slider_maximum = 9, timer_active = True\<rparr> \<and>
   (V8b_tick ^^ 10)
     (V8b_toggle_playback \<lparr>slider_value = 0, slider_minimum = 0, slider_maximum = 9, timer_active = False\<rparr>) =
     \<lparr>slider_value = 9, slider_minimum = 0, slider_maximum = 9, timer_active = False\<rparr>"
  by (simp add: playback_eval eval_nat_numeral)

section \<open>Properties of cursor notification\<close>

subsection \<open>V12b: the loop over the cards\<close>

lemma update_cards_all_ok:
  assumes "\<forall>c \<in> set cs. fst (update_cursor c t i) = None"
  shows "update_cards cs t i = (None, map (\<lambda>c. snd (update_cursor c t i)) cs)"
  using assms
proof (induction cs)
  case Nil
  then show ?case by simp
next
  case (Cons c cs)
  then obtain c' where "update_cursor c t i = (None, c')" by (cases "update_cursor c t i") auto
  with Cons show ?case by simp
qed

lemma update_cards_first_raise:
  assumes "\<forall>p \<in> set pre. fst (update_cursor p t i) = None"
    and "update_cursor c t i = (Some e, c')"
  shows "update_cards (pre @ c # post) t i =
           (Some e, map (\<lambda>p. snd (update_cursor p t i)) pre @ c' # post)"
  using assms
proof (induction pre)
  case Nil
  then show ?case by simp
next
  case (Cons p pre)
  then obtain p' where "update_cursor p t i = (None, p')" by (cases "update_cursor p t i") auto
  with Cons show ?case by simp
qed

text \<open>
  In V12b, once the time value \<open>t\<close> of the row is read, \<open>update_all\<close> calls
  \<open>update_cursor\<close> on the cards one after the other in list order, the order in which
  \<open>load_csv\<close> appended them. The loop is outside any \<open>try\<close>: when no card raises, all
  of them are updated and the attitude block runs; an exception of a card would leave
  \<open>update_all\<close> with the cards after it and the attitude viewer untouched.
\<close>

lemma V12b_update_all_order:
  assumes data: "V12b_data s = Some df"
    and tcol: "py_get (filter (\<lambda>c. str_in ''time'' (lower c)) (columns df)) 0 = Inr time"
    and tval: "py_bind (df_values df (Some time)) (\<lambda>col. py_get col index) = Inr t"
  shows "((\<forall>c \<in> set (V12b_cards s). fst (update_cursor c t index) = None) \<longrightarrow>
            V12b_update_all s index =
              (None, attitude_block
                 (s\<lparr>V12b_cards := map (\<lambda>c. snd (update_cursor c t index)) (V12b_cards s)\<rparr>)
                 df index)) \<and>
         (V12b_cards s = pre @ c # post \<and>
          (\<forall>p \<in> set pre. fst (update_cursor p t index) = None) \<and>
          update_cursor c t index = (Some e, c') \<longrightarrow>
            V12b_update_all s index =
              (Some e, s\<lparr>V12b_cards := map (\<lambda>p. snd (update_cursor p t index)) pre @ c' # post\<rparr>))"
proof (intro conjI impI)
  assume "\<forall>c \<in> set (V12b_cards s). fst (update_cursor c t index) = None"
  from update_cards_all_ok[OF this]
  show "V12b_update_all s index =
              (None, attitude_block
                 (s\<lparr>V12b_cards := map (\<lambda>c. snd (update_cursor c t index)) (V12b_cards s)\<rparr>)
                 df index)"
    using data tcol tval by (simp add: V12b_update_all_def)
next
  assume h: "V12b_cards s = pre @ c # post \<and>
          (\<forall>p \<in> set pre. fst (update_cursor p t index) = None) \<and>
          update_cursor c t index = (Some e, c')"
  then have "update_cards (V12b_cards s) t index =
           (Some e, map (\<lambda>p. snd (update_cursor p t index)) pre @ c' # post)"
    using update_cards_first_raise[of pre t index c e c' post] by simp
  then show "V12b_update_all s index =
              (Some e, s\<lparr>V12b_cards := map (\<lambda>p. snd (update_cursor p t index)) pre @ c' # post\<rparr>)"
    using data tcol tval by (simp add: V12b_update_all_def)
qed

text \<open>
  The cards that \<open>load_csv\<close> of V12b builds all hold a column of the table that is
  loaded, so at a row of that table none of them raises: three rows, two cards, the
  cursor moved to the last row.
\<close>

lemma V12b_update_all_example:
  "V12b_update_all
     \<lparr>V12b_data = Some [(''time'', [Num 0, Num 1, Num 2]), (''alt'', [Num 5, Num 6, Num 7]),
                        (''vel'', [Num 1, Num 2, Num 3])],
      V12b_cards =
        [\<lparr>card_title = ''alt'', card_data = Some [5, 6, 7], card_cursor = Some (Num 0),
          card_dot = Some (Num 0, 5), card_phases = []\<rparr>,
         \<lparr>card_title = ''vel'', card_data = Some [1, 2, 3], card_cursor = Some (Num 0),
          card_dot = Some (Num 0, 1), card_phases = []\<rparr>],
      V12b_attitude = Some \<lparr>att_degrees = None\<rparr>\<rparr> 2 =
   (None,
     \<lparr>V12b_data = Some [(''time'', [Num 0, Num 1, Num 2]), (''alt'', [Num 5, Num 6, Num 7]),
                        (''vel'', [Num 1, Num 2, Num 3])],
      V12b_cards =
        [\<lparr>card_title = ''alt'', card_data = Some [5, 6, 7], card_cursor = Some (Num 2),
          card_dot = Some (Num 2, 7), card_phases = []\<rparr>,
         \<lparr>card_title = ''vel'', card_data = Some [1, 2, 3], card_cursor = Some (Num 2),
          card_dot = Some (Num 2, 3), card_phases = []\<rparr>],
      V12b_attitude = Some \<lparr>att_degrees = None\<rparr>\<rparr>)"
  by (simp add: V12b_update_all_def update_cursor_def py_get_def py_bind_def df_values_def
      columns_def lower_def lower_char_def attitude_block_def filter_regex_cell_def Let_def)

subsection \<open>The unnamed dashboard: \<open>slider_moved\<close>\<close>


















section \<open>Properties of the notification before a load\<close>

lemmas handler_eval = V8_update_all_def V7_slider_update_def update_cursor_def

text \<open>
  Claim C10, for the handlers that begin with the guard. A card whose \<open>data\<close> is \<open>None\<close>
  (nothing plotted yet) and the dashboards of V8 and V7 whose \<open>data\<close> is \<open>None\<close> (nothing
  loaded yet) answer a cursor notification by returning at once: no exception, and the
  state is the one they were called in.
\<close>

theorem pre_load_notification_is_noop:
  "(card_data c = None \<longrightarrow> update_cursor c t index = (None, c)) \<and>
   (V8_data s8 = None \<longrightarrow> V8_update_all s8 index = (None, s8)) \<and>
   (V7_data s7 = None \<longrightarrow> V7_slider_update s7 index = (None, s7))"
  by (simp add: handler_eval)

text \<open>A fresh card and the two dashboards as their constructors leave them.\<close>

theorem pre_load_notification_witness:
  "update_cursor (GraphCard ''alt'') (Num 3) 7 = (None, GraphCard ''alt'') \<and>
   V8_update_all \<lparr>V8_data = None, V8_time_col = None, V8_cards = [], V8_gps_map = None\<rparr> 7 =
     (None, \<lparr>V8_data = None, V8_time_col = None, V8_cards = [], V8_gps_map = None\<rparr>) \<and>
   V7_slider_update \<lparr>V7_data = None, V7_time_col = None, V7_graphs = []\<rparr> 7 =
     (None, \<lparr>V7_data = None, V7_time_col = None, V7_graphs = []\<rparr>)"
  using pre_load_notification_is_noop[of "GraphCard ''alt''" "Num 3" 7
      "\<lparr>V8_data = None, V8_time_col = None, V8_cards = [], V8_gps_map = None\<rparr>"
      "\<lparr>V7_data = None, V7_time_col = None, V7_graphs = []\<rparr>"]
  by (simp add: GraphCard_def)

text \<open>
  Claim C10 as stated, for every handler, fails. \<open>update_all\<close> of V9 has no guard and is
  connected to the slider by the constructor: moving the slider of the fresh dashboard
  to 5 raises AttributeError at \<open>self.time[index]\<close>, as \<open>self.time\<close> is set only by
  \<open>load_csv\<close>.
\<close>

theorem V9_pre_load_notification_counterexample:
  "V9_data V9_init = None \<and> V9_update_all V9_init 5 = (Some AttributeError, V9_init)"
  by (simp add: V9_update_all_def V9_init_def)

section \<open>Properties of reloading a table\<close>

lemma py_bind_Inr:
  "py_bind m f = Inr y \<longleftrightarrow> (\<exists>v. m = Inr v \<and> f v = Inr y)"
  by (cases m) (auto simp: py_bind_def)

lemma plot_Inr:
  "plot c time vals = Inr c' \<Longrightarrow>
     card_phases c' = [] \<and> card_title c' = card_title c \<and> card_data c' = Some vals"
  by (auto simp: plot_def py_bind_Inr split: if_splits)

lemma make_cards_None:
  "make_cards tc time phases cols = (None, cards) \<Longrightarrow>
     map card_phases cards = map (\<lambda>c. phases) cards \<and>
     map card_title cards = filter (\<lambda>n. Some n \<noteq> tc) (map fst cols)"
proof (induction tc time phases cols arbitrary: cards rule: make_cards.induct)
  case (1 tc time phases)
  then show ?case by simp
next
  case (2 tc time phases col vals rest)
  show ?case
  proof (cases "Some col = tc")
    case True
    with 2 show ?thesis by simp
  next
    case False
    from "2.prems" False obtain c where c: "plot (GraphCard col) time vals = Inr c"
      by (cases "plot (GraphCard col) time vals") auto
    obtain r cs where cs: "make_cards tc time phases rest = (r, cs)"
      by (cases "make_cards tc time phases rest") auto
    from "2.prems" False c cs have r: "r = None" and cards: "cards = draw_phases c phases # cs"
      by auto
    from plot_Inr[OF c] have "card_phases (draw_phases c phases) = phases"
      "card_title (draw_phases c phases) = col"
      by (simp_all add: draw_phases_def GraphCard_def)
    with "2.IH"(2)[OF False c] cs r cards False show ?thesis by simp
  qed
qed

lemma update_cursor_keeps:
  "update_cursor c t i = (r, c') \<Longrightarrow> card_phases c' = card_phases c \<and> card_title c' = card_title c"
  by (auto simp: update_cursor_def Let_def split: option.splits sum.splits)

lemma update_cards_keeps:
  "update_cards cs t i = (r, cs') \<Longrightarrow>
     map card_phases cs' = map card_phases cs \<and> map card_title cs' = map card_title cs"
proof (induction cs arbitrary: r cs')
  case Nil
  then show ?case by simp
next
  case (Cons c cs)
  obtain r1 c1 where c1: "update_cursor c t i = (r1, c1)" by (cases "update_cursor c t i") auto
  obtain r2 cs2 where cs2: "update_cards cs t i = (r2, cs2)" by (cases "update_cards cs t i") auto
  from Cons.prems c1 cs2 update_cursor_keeps[OF c1] Cons.IH[OF cs2]
  show ?case by (cases r1) auto
qed

lemma V9_update_all_keeps:
  assumes "V9_update_all s i = (r, s')"
  shows "slider_maximum s' = slider_maximum s \<and> timer_active s' = timer_active s \<and>
         V9_data s' = V9_data s \<and> V9_time s' = V9_time s \<and>
         map card_phases (V9_cards s') = map card_phases (V9_cards s) \<and>
         map card_title (V9_cards s') = map card_title (V9_cards s)"
proof (cases "V9_time s")
  case None
  with assms show ?thesis by (simp add: V9_update_all_def)
next
  case (Some time)
  show ?thesis
  proof (cases "py_get time i")
    case (Inl e)
    with Some assms show ?thesis by (simp add: V9_update_all_def)
  next
    case (Inr t)
    obtain r1 cs where cs: "update_cards (V9_cards s) (Num t) i = (r1, cs)"
      by (cases "update_cards (V9_cards s) (Num t) i") auto
    note k = update_cards_keeps[OF cs]
    show ?thesis
    proof (cases r1)
      case (Some e)
      with assms \<open>V9_time s = Some time\<close> Inr cs k show ?thesis
        by (auto simp: V9_update_all_def)
    next
      case None
      show ?thesis
      proof (cases "V9_gps s")
        case None
        with assms \<open>V9_time s = Some time\<close> Inr cs k \<open>r1 = None\<close> show ?thesis
          by (auto simp: V9_update_all_def)
      next
        case (Some g)
        obtain r2 g' where "gps_update_cursor g i = (r2, g')"
          by (cases "gps_update_cursor g i") auto
        with assms \<open>V9_time s = Some time\<close> Inr cs k \<open>r1 = None\<close> Some show ?thesis
          by (auto simp: V9_update_all_def)
      qed
    qed
  qed
qed

lemma V9_load_gps_keeps:
  assumes "V9_load_gps s df = (r, s')"
  shows "slider_value s' = slider_value s \<and> slider_minimum s' = slider_minimum s \<and>
         slider_maximum s' = slider_maximum s \<and> timer_active s' = timer_active s \<and>
         V9_data s' = V9_data s \<and> V9_time s' = V9_time s \<and> V9_cards s' = V9_cards s"
proof (cases "detect [''lat''] (columns df)")
  case None
  with assms show ?thesis by (simp add: V9_load_gps_def)
next
  case lat: (Some lat)
  show ?thesis
  proof (cases "detect [''lon''] (columns df)")
    case None
    with assms lat show ?thesis by (simp add: V9_load_gps_def)
  next
    case lon: (Some lon)
    show ?thesis
    proof (cases "py_bind (df_values df (Some lat)) (\<lambda>la.
                py_bind (df_values df (Some lon)) (\<lambda>lo. Inr (la, lo)))")
      case (Inl e)
      with assms lat lon show ?thesis by (auto simp: V9_load_gps_def Let_def)
    next
      case (Inr p)
      obtain la lo where p: "p = (la, lo)" by (cases p) auto
      obtain r1 g where "gps_plot GPSMap la lo = (r1, g)" by (cases "gps_plot GPSMap la lo") auto
      with assms lat lon Inr p show ?thesis by (auto simp: V9_load_gps_def Let_def)
    qed
  qed
qed

lemma length_as_floats:
  "as_floats cs = Inr xs \<Longrightarrow> length xs = length cs"
  by (induction cs arbitrary: xs) (auto simp: py_bind_Inr)

lemma V9_read_series_Inr:
  assumes "V9_read_series df = Inr (time, phases)"
  shows "\<exists>time_cells altitude_cells altitude.
           df_values df (detect [''time''] (columns df)) = Inr time_cells \<and>
           df_values df (detect [''alt''] (columns df)) = Inr altitude_cells \<and>
           as_floats time_cells = Inr time \<and> as_floats altitude_cells = Inr altitude \<and>
           2 \<le> length time \<and>
           detect_phases time altitude = Inr phases"
proof -
  from assms obtain time_cells altitude_cells altitude where
    tc: "df_values df (detect [''time''] (columns df)) = Inr time_cells"
    and ac: "df_values df (detect [''alt''] (columns df)) = Inr altitude_cells"
    and t: "(if length time_cells < 2 then Inl IndexError else as_floats time_cells) = Inr time"
    and a: "as_floats altitude_cells = Inr altitude"
    and ph: "detect_phases time altitude = Inr phases"
    unfolding V9_read_series_def py_bind_Inr by auto
  from t have t1: "as_floats time_cells = Inr time" and t2: "2 \<le> length time_cells"
    by (auto split: if_splits)
  from length_as_floats[OF t1] t2 have "2 \<le> length time" by simp
  with tc ac t1 a ph show ?thesis by blast
qed

lemma V9_read_series_no_altitude:
  assumes "detect [''alt''] (columns df) = None"
  shows "V9_read_series df = Inl KeyError"
proof (cases "df_values df (detect [''time''] (columns df))")
  case (Inl e)
  hence "e = KeyError" by (auto simp: df_values_def split: option.splits)
  with Inl show ?thesis by (simp add: V9_read_series_def py_bind_def)
next
  case (Inr time_cells)
  with assms show ?thesis by (simp add: V9_read_series_def py_bind_def df_values_def)
qed

lemma V9_load_csv_shape:
  assumes res: "V9_load_csv s df = (r, s')"
  shows "V9_data s' = Some df \<and> timer_active s' = timer_active s \<and>
         (r = None \<longrightarrow>
            (\<exists>time phases.
               V9_read_series df = Inr (time, phases) \<and>
               V9_time s' = Some time \<and>
               map card_phases (V9_cards s') = map (\<lambda>c. phases) (V9_cards s') \<and>
               map card_title (V9_cards s') =
                 filter (\<lambda>n. Some n \<noteq> detect [''time''] (columns df))
                   (map fst (select_number df)) \<and>
               slider_maximum s' = int (length time) - 1))"
proof (cases "V9_read_series df")
  case (Inl e)
  with res show ?thesis by (auto simp: V9_load_csv_def Let_def)
next
  case (Inr p)
  obtain time phases where p: "p = (time, phases)" by (cases p) auto
  let ?tc = "detect [''time''] (columns df)"
  obtain r1 cards where mk: "make_cards ?tc time phases (select_number df) = (r1, cards)"
    by (cases "make_cards ?tc time phases (select_number df)") auto
  show ?thesis
  proof (cases r1)
    case (Some e)
    with res Inr p mk show ?thesis by (auto simp: V9_load_csv_def Let_def)
  next
    case None
    note mkn = make_cards_None[OF mk[unfolded None]]
    let ?s0 = "s\<lparr>V9_data := Some df, V9_cards := cards\<rparr>"
    obtain r2 s1 where g: "V9_load_gps ?s0 df = (r2, s1)"
      by (cases "V9_load_gps ?s0 df") auto
    note gk = V9_load_gps_keeps[OF g]
    show ?thesis
    proof (cases r2)
      case (Some e)
      with res Inr p mk None g gk show ?thesis by (auto simp: V9_load_csv_def Let_def)
    next
      case r2: None
      let ?s2 = "s1\<lparr>V9_time := Some time\<rparr>"
      let ?s3 = "setMaximum (int (length time) - 1) ?s2"
      have s3: "V9_data ?s3 = Some df" "V9_time ?s3 = Some time" "V9_cards ?s3 = cards"
        "timer_active ?s3 = timer_active s" "slider_maximum ?s3 = int (length time) - 1"
        using gk by (auto simp: setMaximum_def setValue_def)
      show ?thesis
      proof (cases "slider_value ?s3 = slider_value ?s2")
        case True
        with res Inr p mk None g r2 have "r = None" "s' = ?s3"
          by (auto simp: V9_load_csv_def Let_def)
        with s3 mkn Inr p show ?thesis by simp
      next
        case False
        with res Inr p mk None g r2 have u: "V9_update_all ?s3 (slider_value ?s3) = (r, s')"
          by (auto simp: V9_load_csv_def Let_def)
        note k = V9_update_all_keeps[OF u]
        from k s3(3) have "map card_phases (V9_cards s') = map card_phases cards"
          by simp
        hence "length (V9_cards s') = length cards"
          by (rule map_eq_imp_length_eq)
        hence "map (\<lambda>c. phases) (V9_cards s') = map (\<lambda>c. phases) cards"
          by (simp add: map_replicate_const)
        with k s3 mkn Inr p show ?thesis by simp
      qed
    qed
  qed
qed


lemmas load_eval = V9_load_csv_def V9_read_series_def V9_load_gps_def V9_update_all_def
  V9_init_def update_cursor_def gps_update_cursor_def gps_plot_def GPSMap_def plot_def
  draw_phases_def GraphCard_def select_number_def numeric_dtype_def df_values_def
  columns_def lower_def lower_char_def setMaximum_def setValue_def timer_start_def
  detect_phases_def py_get_def phase_indices_def np_gradient_def py_bind_def
  np_argmax_mask_def np_argmax_def np_min_def interior_uniform_def interior_uneven_def
  fdiv_def fsub_def fadd_def fmul_def zero_sgn_def inf_sgn_def Let_def upt_rec

text \<open>
  Claim C3, as the code has it (V9). Whatever the outcome of \<open>load_csv\<close>, the table is
  the new one and the timer is left as it was. When the call completes, \<open>self.time\<close>
  is the time column of the new table, there is one card for each numeric column of
  the new table other than the time column, every card carries exactly the phases
  computed from the new table, and the maximum of the slider is the number of rows
  minus 1. When the new table has no altitude column, the call raises KeyError and
  changes nothing but the table: the cards of the previous table, with their phase
  markers, and \<open>self.time\<close> stay.
\<close>

theorem V9_load_csv_reload:
  assumes res: "V9_load_csv s df = (r, s')"
  shows "V9_data s' = Some df \<and> timer_active s' = timer_active s \<and>
         (r = None \<longrightarrow>
            (\<exists>time_cells altitude_cells time altitude phases.
               df_values df (detect [''time''] (columns df)) = Inr time_cells \<and>
               df_values df (detect [''alt''] (columns df)) = Inr altitude_cells \<and>
               as_floats time_cells = Inr time \<and> as_floats altitude_cells = Inr altitude \<and>
               2 \<le> length time \<and>
               detect_phases time altitude = Inr phases \<and>
               V9_time s' = Some time \<and>
               map card_phases (V9_cards s') = map (\<lambda>c. phases) (V9_cards s') \<and>
               map card_title (V9_cards s') =
                 filter (\<lambda>n. Some n \<noteq> detect [''time''] (columns df))
                   (map fst (select_number df)) \<and>
               slider_maximum s' = int (length time) - 1)) \<and>
         (detect [''alt''] (columns df) = None \<longrightarrow>
            r = Some KeyError \<and> s' = s\<lparr>V9_data := Some df\<rparr>)"
proof -
  note sh = V9_load_csv_shape[OF res]
  have ok: "r = None \<longrightarrow>
            (\<exists>time_cells altitude_cells time altitude phases.
               df_values df (detect [''time''] (columns df)) = Inr time_cells \<and>
               df_values df (detect [''alt''] (columns df)) = Inr altitude_cells \<and>
               as_floats time_cells = Inr time \<and> as_floats altitude_cells = Inr altitude \<and>
               2 \<le> length time \<and>
               detect_phases time altitude = Inr phases \<and>
               V9_time s' = Some time \<and>
               map card_phases (V9_cards s') = map (\<lambda>c. phases) (V9_cards s') \<and>
               map card_title (V9_cards s') =
                 filter (\<lambda>n. Some n \<noteq> detect [''time''] (columns df))
                   (map fst (select_number df)) \<and>
               slider_maximum s' = int (length time) - 1)"
  proof
    assume "r = None"
    with sh obtain time phases where
      rs: "V9_read_series df = Inr (time, phases)"
      and rest: "V9_time s' = Some time"
        "map card_phases (V9_cards s') = map (\<lambda>c. phases) (V9_cards s')"
        "map card_title (V9_cards s') =
           filter (\<lambda>n. Some n \<noteq> detect [''time''] (columns df)) (map fst (select_number df))"
        "slider_maximum s' = int (length time) - 1"
      by blast
    from V9_read_series_Inr[OF rs] rest show
      "\<exists>time_cells altitude_cells time altitude phases.
               df_values df (detect [''time''] (columns df)) = Inr time_cells \<and>
               df_values df (detect [''alt''] (columns df)) = Inr altitude_cells \<and>
               as_floats time_cells = Inr time \<and> as_floats altitude_cells = Inr altitude \<and>
               2 \<le> length time \<and>
               detect_phases time altitude = Inr phases \<and>
               V9_time s' = Some time \<and>
               map card_phases (V9_cards s') = map (\<lambda>c. phases) (V9_cards s') \<and>
               map card_title (V9_cards s') =
                 filter (\<lambda>n. Some n \<noteq> detect [''time''] (columns df))
                   (map fst (select_number df)) \<and>
               slider_maximum s' = int (length time) - 1"
      by blast
  qed
  have no_alt: "detect [''alt''] (columns df) = None \<longrightarrow>
                r = Some KeyError \<and> s' = s\<lparr>V9_data := Some df\<rparr>"
  proof
    assume "detect [''alt''] (columns df) = None"
    from V9_read_series_no_altitude[OF this] res
    show "r = Some KeyError \<and> s' = s\<lparr>V9_data := Some df\<rparr>"
      by (auto simp: V9_load_csv_def Let_def)
  qed
  from sh ok no_alt show ?thesis by blast
qed

text \<open>
  Claim C3 as stated fails. A table of five rows is loaded into the fresh dashboard,
  Play is pressed and the slider is moved to row 1. Loading a table of three rows
  then leaves the timer active, so the timeline is not stopped. Loading instead a
  table without an altitude column raises KeyError at \<open>self.data[alt_col]\<close>: the
  dashboard holds the new table, and the card of the previous table still shows its
  five phase markers.
\<close>

theorem reload_keeps_timer_counterexample:
  "V9_load_csv V9_init
     [(''time'', [Num 0, Num 1, Num 2, Num 3, Num 4]),
      (''alt'', [Num 0, Num 50, Num 90, Num 40, Num 0])] =
   (None,
    \<lparr>slider_value = 0, slider_minimum = 0, slider_maximum = 4, timer_active = False,
     V9_data = Some [(''time'', [Num 0, Num 1, Num 2, Num 3, Num 4]),
                     (''alt'', [Num 0, Num 50, Num 90, Num 40, Num 0])],
     V9_cards = [\<lparr>card_title = ''alt'', card_data = Some [0, 50, 90, 40, 0],
                  card_cursor = Some (Num 0), card_dot = Some (Num 0, 0),
                  card_phases = [(''Boost'', 0), (''Coast'', 1), (''Apogee'', 2),
                                 (''Descent'', 2), (''Landed'', 3)]\<rparr>],
     V9_gps = None, V9_time = Some [0, 1, 2, 3, 4]\<rparr>) \<and>
   V9_update_all
     (setValue 1 (timer_start
       \<lparr>slider_value = 0, slider_minimum = 0, slider_maximum = 4, timer_active = False,
        V9_data = Some [(''time'', [Num 0, Num 1, Num 2, Num 3, Num 4]),
                        (''alt'', [Num 0, Num 50, Num 90, Num 40, Num 0])],
        V9_cards = [\<lparr>card_title = ''alt'', card_data = Some [0, 50, 90, 40, 0],
                     card_cursor = Some (Num 0), card_dot = Some (Num 0, 0),
                     card_phases = [(''Boost'', 0), (''Coast'', 1), (''Apogee'', 2),
                                    (''Descent'', 2), (''Landed'', 3)]\<rparr>],
        V9_gps = None, V9_time = Some [0, 1, 2, 3, 4]\<rparr>)) 1 =
   (None,
    \<lparr>slider_value = 1, slider_minimum = 0, slider_maximum = 4, timer_active = True,
     V9_data = Some [(''time'', [Num 0, Num 1, Num 2, Num 3, Num 4]),
                     (''alt'', [Num 0, Num 50, Num 90, Num 40, Num 0])],
     V9_cards = [\<lparr>card_title = ''alt'', card_data = Some [0, 50, 90, 40, 0],
                  card_cursor = Some (Num 1), card_dot = Some (Num 1, 50),
                  card_phases = [(''Boost'', 0), (''Coast'', 1), (''Apogee'', 2),
                                 (''Descent'', 2), (''Landed'', 3)]\<rparr>],
     V9_gps = None, V9_time = Some [0, 1, 2, 3, 4]\<rparr>) \<and>
   V9_load_csv
     \<lparr>slider_value = 1, slider_minimum = 0, slider_maximum = 4, timer_active = True,
      V9_data = Some [(''time'', [Num 0, Num 1, Num 2, Num 3, Num 4]),
                      (''alt'', [Num 0, Num 50, Num 90, Num 40, Num 0])],
      V9_cards = [\<lparr>card_title = ''alt'', card_data = Some [0, 50, 90, 40, 0],
                   card_cursor = Some (Num 1), card_dot = Some (Num 1, 50),
                   card_phases = [(''Boost'', 0), (''Coast'', 1), (''Apogee'', 2),
                                  (''Descent'', 2), (''Landed'', 3)]\<rparr>],
      V9_gps = None, V9_time = Some [0, 1, 2, 3, 4]\<rparr>
     [(''time'', [Num 0, Num 1, Num 2]), (''alt'', [Num 0, Num 10, Num 5])] =
   (None,
    \<lparr>slider_value = 1, slider_minimum = 0, slider_maximum = 2, timer_active = True,
     V9_data = Some [(''time'', [Num 0, Num 1, Num 2]), (''alt'', [Num 0, Num 10, Num 5])],
     V9_cards = [\<lparr>card_title = ''alt'', card_data = Some [0, 10, 5],
                  card_cursor = Some (Num 0), card_dot = Some (Num 0, 0),
                  card_phases = [(''Boost'', 0), (''Coast'', 0), (''Apogee'', 1),
                                 (''Descent'', 2), (''Landed'', 2)]\<rparr>],
     V9_gps = None, V9_time = Some [0, 1, 2]\<rparr>) \<and>
   V9_load_csv
     \<lparr>slider_value = 1, slider_minimum = 0, slider_maximum = 4, timer_active = True,
      V9_data = Some [(''time'', [Num 0, Num 1, Num 2, Num 3, Num 4]),
                      (''alt'', [Num 0, Num 50, Num 90, Num 40, Num 0])],
      V9_cards = [\<lparr>card_title = ''alt'', card_data = Some [0, 50, 90, 40, 0],
                   card_cursor = Some (Num 1), card_dot = Some (Num 1, 50),
                   card_phases = [(''Boost'', 0), (''Coast'', 1), (''Apogee'', 2),
                                  (''Descent'', 2), (''Landed'', 3)]\<rparr>],
      V9_gps = None, V9_time = Some [0, 1, 2, 3, 4]\<rparr>
     [(''time'', [Num 0, Num 1, Num 2]), (''vel'', [Num 0, Num 10, Num 5])] =
   (Some KeyError,
    \<lparr>slider_value = 1, slider_minimum = 0, slider_maximum = 4, timer_active = True,
     V9_data = Some [(''time'', [Num 0, Num 1, Num 2]), (''vel'', [Num 0, Num 10, Num 5])],
     V9_cards = [\<lparr>card_title = ''alt'', card_data = Some [0, 50, 90, 40, 0],
                  card_cursor = Some (Num 1), card_dot = Some (Num 1, 50),
                  card_phases = [(''Boost'', 0), (''Coast'', 1), (''Apogee'', 2),
                                 (''Descent'', 2), (''Landed'', 3)]\<rparr>],
     V9_gps = None, V9_time = Some [0, 1, 2, 3, 4]\<rparr>)"
  by (simp add: load_eval)

text \<open>
  The theorem at the same dashboard, playing with the cursor on row 1: once for the
  table of three rows, which loads, and once for the table without an altitude
  column, which raises.
\<close>

theorem V9_load_csv_reload_witness:
  "(\<exists>s'. V9_load_csv
     \<lparr>slider_value = 1, slider_minimum = 0, slider_maximum = 4, timer_active = True,
      V9_data = Some [(''time'', [Num 0, Num 1, Num 2, Num 3, Num 4]),
                      (''alt'', [Num 0, Num 50, Num 90, Num 40, Num 0])],
      V9_cards = [\<lparr>card_title = ''alt'', card_data = Some [0, 50, 90, 40, 0],
                   card_cursor = Some (Num 1), card_dot = Some (Num 1, 50),
                   card_phases = [(''Boost'', 0), (''Coast'', 1), (''Apogee'', 2),
                                  (''Descent'', 2), (''Landed'', 3)]\<rparr>],
      V9_gps = None, V9_time = Some [0, 1, 2, 3, 4]\<rparr>
     [(''time'', [Num 0, Num 1, Num 2]), (''alt'', [Num 0, Num 10, Num 5])] = (None, s') \<and>
     V9_data s' = Some [(''time'', [Num 0, Num 1, Num 2]), (''alt'', [Num 0, Num 10, Num 5])] \<and>
     timer_active s' \<and> slider_maximum s' = 2 \<and> V9_time s' = Some [0, 1, 2] \<and>
     map card_title (V9_cards s') = [''alt''] \<and>
     map card_phases (V9_cards s') =
       [[(''Boost'', 0), (''Coast'', 0), (''Apogee'', 1), (''Descent'', 2), (''Landed'', 2)]]) \<and>
   (\<exists>s'. V9_load_csv
     \<lparr>slider_value = 1, slider_minimum = 0, slider_maximum = 4, timer_active = True,
      V9_data = Some [(''time'', [Num 0, Num 1, Num 2, Num 3, Num 4]),
                      (''alt'', [Num 0, Num 50, Num 90, Num 40, Num 0])],
      V9_cards = [\<lparr>card_title = ''alt'', card_data = Some [0, 50, 90, 40, 0],
                   card_cursor = Some (Num 1), card_dot = Some (Num 1, 50),
                   card_phases = [(''Boost'', 0), (''Coast'', 1), (''Apogee'', 2),
                                  (''Descent'', 2), (''Landed'', 3)]\<rparr>],
      V9_gps = None, V9_time = Some [0, 1, 2, 3, 4]\<rparr>
     [(''time'', [Num 0, Num 1, Num 2]), (''vel'', [Num 0, Num 10, Num 5])] =
       (Some KeyError, s') \<and>
     timer_active s' \<and> V9_time s' = Some [0, 1, 2, 3, 4] \<and>
     map card_phases (V9_cards s') =
       [[(''Boost'', 0), (''Coast'', 1), (''Apogee'', 2), (''Descent'', 2), (''Landed'', 3)]])"
proof -
  let ?s = "\<lparr>slider_value = 1, slider_minimum = 0, slider_maximum = 4, timer_active = True,
      V9_data = Some [(''time'', [Num 0, Num 1, Num 2, Num 3, Num 4]),
                      (''alt'', [Num 0, Num 50, Num 90, Num 40, Num 0])],
      V9_cards = [\<lparr>card_title = ''alt'', card_data = Some [0, 50, 90, 40, 0],
                   card_cursor = Some (Num 1), card_dot = Some (Num 1, 50),
                   card_phases = [(''Boost'', 0), (''Coast'', 1), (''Apogee'', 2),
                                  (''Descent'', 2), (''Landed'', 3)]\<rparr>],
      V9_gps = None, V9_time = Some [0, 1, 2, 3, 4]\<rparr>"
  let ?df = "[(''time'', [Num 0, Num 1, Num 2]), (''alt'', [Num 0, Num 10, Num 5])]"
  let ?dv = "[(''time'', [Num 0, Num 1, Num 2]), (''vel'', [Num 0, Num 10, Num 5])]"
  obtain r1 s1 where e1: "V9_load_csv ?s ?df = (r1, s1)" by (cases "V9_load_csv ?s ?df") auto
  obtain r2 s2 where e2: "V9_load_csv ?s ?dv = (r2, s2)" by (cases "V9_load_csv ?s ?dv") auto
  have r1: "r1 = None" using e1 by (simp add: load_eval)
  have alt: "detect [''alt''] (columns ?dv) = None" by (simp add: columns_def lower_def lower_char_def)
  have tc: "detect [''time''] (columns ?df) = Some ''time''"
    "detect [''alt''] (columns ?df) = Some ''alt''"
    by (simp_all add: columns_def lower_def lower_char_def)
  have sel: "select_number ?df = [(''time'', [0, 1, 2]), (''alt'', [0, 10, 5])]"
    by (simp add: select_number_def numeric_dtype_def)
  have ph: "detect_phases [0, 1, 2] [0, 10, 5] =
      Inr [(''Boost'', 0), (''Coast'', 0), (''Apogee'', 1), (''Descent'', 2), (''Landed'', 2)]"
    by (simp add: load_eval)
  from V9_load_csv_reload[OF e1] r1 tc sel ph
  have a: "V9_data s1 = Some ?df \<and> timer_active s1 \<and> slider_maximum s1 = 2 \<and>
     V9_time s1 = Some [0, 1, 2] \<and> map card_title (V9_cards s1) = [''alt''] \<and>
     length (V9_cards s1) = 1 \<and>
     map card_phases (V9_cards s1) = map (\<lambda>c.
       [(''Boost'', 0), (''Coast'', 0), (''Apogee'', 1), (''Descent'', 2), (''Landed'', 2)])
       (V9_cards s1)"
    by (auto simp: df_values_def py_bind_def dest: map_eq_imp_length_eq)
  from V9_load_csv_reload[OF e2] alt
  have b: "r2 = Some KeyError \<and> s2 = ?s\<lparr>V9_data := Some ?dv\<rparr>" by blast
  from a have a': "map card_phases (V9_cards s1) =
       [[(''Boost'', 0), (''Coast'', 0), (''Apogee'', 1), (''Descent'', 2), (''Landed'', 2)]]"
    by (cases "V9_cards s1") auto
  from e1 r1 a a' e2 b show ?thesis by simp
qed

end
